theory Spec2Isabelle
  imports Complex_Main
begin

unbundle bit_operations_syntax

section \<open>JavaScript numbers\<close>

text \<open>
  A JavaScript \<^verbatim>\<open>number\<close> is an IEEE double.  Finite values are idealised as reals; the
  three values that \<^verbatim>\<open>isFinite\<close> rejects are kept apart, since the code tests for them.
\<close>

datatype jsnum = Num real | NaN | Infinity | NegInfinity

fun isFinite :: "jsnum \<Rightarrow> bool" where
  "isFinite (Num x) = True"
| "isFinite NaN = False"
| "isFinite Infinity = False"
| "isFinite NegInfinity = False"

text \<open>\<^verbatim>\<open>Math.round\<close>: the nearest integer, a tie going up.\<close>

definition js_round :: "real \<Rightarrow> int" where
  "js_round x = \<lfloor>x + 1 / 2\<rfloor>"

text \<open>\<^verbatim>\<open>Math.round(x * 100) / 100\<close>, the two-decimal rounding used throughout the utilities.\<close>

definition round2 :: "real \<Rightarrow> real" where
  "round2 x = of_int (js_round (x * 100)) / 100"

text \<open>\<^verbatim>\<open>Math.max(0, Math.min(100, x))\<close>; \<^verbatim>\<open>NaN\<close> propagates through both.\<close>

fun clamp_0_100 :: "jsnum \<Rightarrow> jsnum" where
  "clamp_0_100 (Num x) = Num (max 0 (min 100 x))"
| "clamp_0_100 NaN = NaN"
| "clamp_0_100 Infinity = Num 100"
| "clamp_0_100 NegInfinity = Num 0"

section \<open>The chroma-js library\<close>

text \<open>
  The utilities call chroma-js (\<^verbatim>\<open>"chroma-js": "^2.4.2"\<close> in package.json), which is not
  part of the repository.  What the library does with integers, strings and rational
  arithmetic is written out below: a colour object holds its \<^verbatim>\<open>_rgb\<close> channels clipped to
  \<open>[0, 255]\<close> (the alpha channel is 1 on every path here and is left out), \<^verbatim>\<open>hex()\<close> prints
  six lower-case digits, the constructor reads three- and six-digit hex strings, and the
  HSL conversions are the usual piecewise formulas.  What the library computes with
  transcendental functions (CIEDE2000, relative luminance, Lab brightening) and the input
  formats other than hex are the fields of a record \<open>chroma_lib\<close>; every theorem below
  holds for every value of that record.
\<close>

type_synonym chroma_color = "real \<times> real \<times> real"

record chroma_lib =
  other_formats :: "string \<Rightarrow> chroma_color option"
  ciede2000 :: "chroma_color \<Rightarrow> chroma_color \<Rightarrow> jsnum"
  contrast_ratio :: "chroma_color \<Rightarrow> chroma_color \<Rightarrow> jsnum"
  brighten :: "chroma_color \<Rightarrow> real \<Rightarrow> chroma_color"
  darken :: "chroma_color \<Rightarrow> real \<Rightarrow> chroma_color"

subsection \<open>Clipping\<close>

definition limit :: "real \<Rightarrow> real \<Rightarrow> real \<Rightarrow> real" where
  "limit x lo hi = min (max lo x) hi"

definition clip_rgb :: "chroma_color \<Rightarrow> chroma_color" where
  "clip_rgb c = (case c of (r, g, b) \<Rightarrow> (limit r 0 255, limit g 0 255, limit b 0 255))"

subsection \<open>Printing a colour as hex\<close>

definition hex_digit :: "nat \<Rightarrow> char" where
  "hex_digit d = ''0123456789abcdef'' ! d"

text \<open>\<^verbatim>\<open>u.toString(16)\<close> for a non-negative integer: no leading zeros, lower case.\<close>

fun toString16 :: "nat \<Rightarrow> string" where
  "toString16 n =
     (if n < 16 then [hex_digit n] else toString16 (n div 16) @ [hex_digit (n mod 16)])"

declare toString16.simps [simp del]

text \<open>
  \<^verbatim>\<open>rgb2hex\<close>: round each channel, pack as \<^verbatim>\<open>r << 16 | g << 8 | b\<close>, print in base 16,
  left-pad with zeros and keep the last six characters.
\<close>

definition rgb2hex :: "chroma_color \<Rightarrow> string" where
  "rgb2hex c = (case c of (r, g, b) \<Rightarrow>
     (let u = push_bit 16 (js_round r) OR push_bit 8 (js_round g) OR js_round b;
          str = ''000000'' @ toString16 (nat u)
      in CHR ''#'' # drop (length str - 6) str))"

subsection \<open>Reading a hex string\<close>

definition is_hex_digit :: "char \<Rightarrow> bool" where
  "is_hex_digit c = (c \<in> set ''0123456789abcdefABCDEF'')"

definition digit_value :: "char \<Rightarrow> nat" where
  "digit_value c =
     (if c \<in> set ''0123456789'' then of_char c - of_char CHR ''0''
      else if c \<in> set ''abcdef'' then of_char c - of_char CHR ''a'' + 10
      else of_char c - of_char CHR ''A'' + 10)"

text \<open>\<^verbatim>\<open>parseInt(s, 16)\<close> on a string of hex digits.\<close>

definition parseInt16 :: "string \<Rightarrow> nat" where
  "parseInt16 s = foldl (\<lambda>acc c. 16 * acc + digit_value c) 0 s"

definition strip_hash :: "string \<Rightarrow> string" where
  "strip_hash s = (case s of [] \<Rightarrow> [] | c # t \<Rightarrow> if c = CHR ''#'' then t else s)"

text \<open>The library's pattern \<^verbatim>\<open>/^#?([A-Fa-f0-9]{6}|[A-Fa-f0-9]{3})$/\<close>.\<close>

definition RE_HEX :: "string \<Rightarrow> bool" where
  "RE_HEX s =
     (let t = strip_hash s in (length t = 6 \<or> length t = 3) \<and> list_all is_hex_digit t)"

text \<open>
  \<^verbatim>\<open>hex2rgb\<close> on a string that matches \<open>RE_HEX\<close>: drop the \<^verbatim>\<open>#\<close>, double the digits of
  the short form, parse, and take the channels apart with \<^verbatim>\<open>u >> 16\<close>,
  \<^verbatim>\<open>(u >> 8) & 0xff\<close> and \<^verbatim>\<open>u & 0xff\<close>.
\<close>

definition hex2rgb :: "string \<Rightarrow> chroma_color" where
  "hex2rgb s =
     (let h1 = (if length s = 4 \<or> length s = 7 then drop 1 s else s);
          h2 = (if length h1 = 3 then [h1 ! 0, h1 ! 0, h1 ! 1, h1 ! 1, h1 ! 2, h1 ! 2] else h1);
          u = int (parseInt16 h2)
      in (of_int (drop_bit 16 u), of_int (drop_bit 8 u AND 255), of_int (u AND 255)))"

text \<open>
  \<^verbatim>\<open>chroma(s)\<close> for a string: \<open>None\<close> when the constructor throws.  No named colour and no
  CSS colour string matches \<open>RE_HEX\<close>, so the hex case can be decided first; every other
  format is left to \<open>other_formats\<close>.  The constructor clips what the format returns.
\<close>

definition chroma :: "chroma_lib \<Rightarrow> string \<Rightarrow> chroma_color option" where
  "chroma L s =
     (if RE_HEX s then Some (clip_rgb (hex2rgb s))
      else map_option clip_rgb (other_formats L s))"

text \<open>\<^verbatim>\<open>chroma(r, g, b)\<close> for three numbers.\<close>

definition chroma_rgb :: "real \<Rightarrow> real \<Rightarrow> real \<Rightarrow> chroma_color" where
  "chroma_rgb r g b = clip_rgb (r, g, b)"

text \<open>\<^verbatim>\<open>chroma.valid(s)\<close>: whether the constructor accepts \<open>s\<close>.\<close>

definition valid :: "chroma_lib \<Rightarrow> string \<Rightarrow> bool" where
  "valid L s = (chroma L s \<noteq> None)"

text \<open>\<^verbatim>\<open>color.rgb()\<close>: the channels, rounded.\<close>

definition rgb_of :: "chroma_color \<Rightarrow> int \<times> int \<times> int" where
  "rgb_of c = (case c of (r, g, b) \<Rightarrow> (js_round r, js_round g, js_round b))"

subsection \<open>HSL\<close>

text \<open>
  \<^verbatim>\<open>color.hsl()\<close>: hue in degrees, saturation and lightness in \<open>[0, 1]\<close>.  The hue of an
  achromatic colour is \<^verbatim>\<open>NaN\<close>, here \<open>None\<close>.
\<close>

definition rgb2hsl :: "chroma_color \<Rightarrow> real option \<times> real \<times> real" where
  "rgb2hsl c = (case c of (r0, g0, b0) \<Rightarrow>
     (let r = r0 / 255; g = g0 / 255; b = b0 / 255;
          minRgb = min r (min g b);
          maxRgb = max r (max g b);
          l = (maxRgb + minRgb) / 2
      in if maxRgb = minRgb then (None, 0, l)
         else
           (let s = (if l < 1 / 2 then (maxRgb - minRgb) / (maxRgb + minRgb)
                     else (maxRgb - minRgb) / (2 - maxRgb - minRgb));
                h1 = (if r = maxRgb then (g - b) / (maxRgb - minRgb)
                      else if g = maxRgb then 2 + (b - r) / (maxRgb - minRgb)
                      else 4 + (r - g) / (maxRgb - minRgb));
                h2 = h1 * 60
            in (Some (if h2 < 0 then h2 + 360 else h2), s, l))))"

text \<open>One channel of \<^verbatim>\<open>hsl2rgb\<close>, from the two lightness bounds and the shifted hue.\<close>

definition hsl_channel :: "real \<Rightarrow> real \<Rightarrow> real \<Rightarrow> real" where
  "hsl_channel t1 t2 t3 =
     (let ta = (if t3 < 0 then t3 + 1 else t3);
          tb = (if ta > 1 then ta - 1 else ta)
      in if 6 * tb < 1 then t1 + (t2 - t1) * 6 * tb
         else if 2 * tb < 1 then t2
         else if 3 * tb < 2 then t1 + (t2 - t1) * (2 / 3 - tb) * 6
         else t1)"

definition hsl2rgb :: "real \<Rightarrow> real \<Rightarrow> real \<Rightarrow> chroma_color" where
  "hsl2rgb h s l =
     (if s = 0 then (l * 255, l * 255, l * 255)
      else
        (let t2 = (if l < 1 / 2 then l * (1 + s) else l + s - l * s);
             t1 = 2 * l - t2;
             h' = h / 360
         in (of_int (js_round (hsl_channel t1 t2 (h' + 1 / 3) * 255)),
             of_int (js_round (hsl_channel t1 t2 h' * 255)),
             of_int (js_round (hsl_channel t1 t2 (h' - 1 / 3) * 255)))))"

text \<open>\<^verbatim>\<open>chroma.hsl(h, s, l)\<close>.\<close>

definition chroma_hsl :: "real \<Rightarrow> real \<Rightarrow> real \<Rightarrow> chroma_color" where
  "chroma_hsl h s l = clip_rgb (hsl2rgb h s l)"

subsection \<open>Mixing\<close>

text \<open>
  \<^verbatim>\<open>chroma.mix(a, b, f)\<close> in the default mode \<^verbatim>\<open>'lrgb'\<close>: each channel is
  \<open>sqrt (x\<^sub>1\<^sup>2 (1 - f) + x\<^sub>2\<^sup>2 f)\<close>.  Both arguments go through the constructor, which
  throws on a string it cannot read.  Every call site passes a weight in \<open>[0, 1]\<close>.
\<close>

definition lrgb :: "chroma_color \<Rightarrow> chroma_color \<Rightarrow> real \<Rightarrow> chroma_color" where
  "lrgb c1 c2 f = (case c1 of (x1, y1, z1) \<Rightarrow> case c2 of (x2, y2, z2) \<Rightarrow>
     clip_rgb (sqrt (x1\<^sup>2 * (1 - f) + x2\<^sup>2 * f),
               sqrt (y1\<^sup>2 * (1 - f) + y2\<^sup>2 * f),
               sqrt (z1\<^sup>2 * (1 - f) + z2\<^sup>2 * f)))"

definition chroma_mix :: "chroma_lib \<Rightarrow> string \<Rightarrow> string \<Rightarrow> real \<Rightarrow> chroma_color option" where
  "chroma_mix L a b f =
     (case chroma L a of None \<Rightarrow> None
      | Some c1 \<Rightarrow> (case chroma L b of None \<Rightarrow> None
      | Some c2 \<Rightarrow> Some (lrgb c1 c2 f)))"

text \<open>\<^verbatim>\<open>chroma.mix(a, b, f).hex()\<close>, the form every loop of the mixer uses.\<close>

definition mix_hex :: "chroma_lib \<Rightarrow> string \<Rightarrow> string \<Rightarrow> real \<Rightarrow> string option" where
  "mix_hex L a b f = map_option rgb2hex (chroma_mix L a b f)"

subsection \<open>Difference and contrast\<close>

text \<open>
  \<^verbatim>\<open>chroma.deltaE(a, b)\<close> builds both colours and returns the CIEDE2000 difference
  clamped by \<^verbatim>\<open>max(0, min(100, result))\<close>; \<^verbatim>\<open>chroma.contrast(a, b)\<close> builds both
  colours and returns the ratio of their luminances.
\<close>

definition chroma_deltaE :: "chroma_lib \<Rightarrow> string \<Rightarrow> string \<Rightarrow> jsnum option" where
  "chroma_deltaE L a b =
     (case chroma L a of None \<Rightarrow> None
      | Some c1 \<Rightarrow> (case chroma L b of None \<Rightarrow> None
      | Some c2 \<Rightarrow> Some (clamp_0_100 (ciede2000 L c1 c2))))"

definition chroma_contrast :: "chroma_lib \<Rightarrow> string \<Rightarrow> string \<Rightarrow> jsnum option" where
  "chroma_contrast L a b =
     (case chroma L a of None \<Rightarrow> None
      | Some c1 \<Rightarrow> (case chroma L b of None \<Rightarrow> None
      | Some c2 \<Rightarrow> Some (contrast_ratio L c1 c2)))"

section \<open>Data model\<close>

text \<open>
  The records of \<^verbatim>\<open>types/color\<close> and \<^verbatim>\<open>types/advanced\<close> as the utilities build them.
  The fields \<^verbatim>\<open>r\<close>, \<^verbatim>\<open>g\<close>, \<^verbatim>\<open>b\<close> and \<^verbatim>\<open>h\<close>, \<^verbatim>\<open>s\<close>, \<^verbatim>\<open>l\<close> carry a prefix, and
  \<^verbatim>\<open>id\<close> is \<open>colorId\<close>.  The field \<^verbatim>\<open>id\<close> is optional in the source.
\<close>

record RGBColor =
  rgb_r :: int
  rgb_g :: int
  rgb_b :: int

record HSLColor =
  hsl_h :: int
  hsl_s :: int
  hsl_l :: int

text \<open>
  The labels of \<^verbatim>\<open>getColorName\<close> are Japanese string literals; each constructor stands
  for one literal (\<open>Red\<close> for the katakana word "reddo", \<open>RedTone\<close> for "reddo-kei", and so
  on).  A name is a label or one of the two templates of the mixer.
\<close>

datatype color_label =
  Red | Green | Blue | Yellow | Magenta | Cyan | Black | White | Gray | Orange | Purple
  | Pink | Brown | DarkGreen | Navy
  | DarkGray | LightGray | Dark | Light
  | RedTone | OrangeTone | YellowTone | GreenTone | CyanTone | BlueTone | PurpleTone
  | PinkTone | Custom

datatype color_name =
  Label color_label
  | Times color_name color_name
  | Mixture "color_name list"
  | Text string

record ColorInfo =
  hex :: string
  rgb :: RGBColor
  hsl :: HSLColor
  name :: color_name
  colorId :: "string option"

record MixedColor = ColorInfo +
  parentColors :: "string option list"
  ratio :: "real list"

record Frame =
  frame_hex :: string
  progress :: jsnum

record Level =
  normal :: bool
  large :: bool

record Suggestions =
  lightVersion :: string
  darkVersion :: string

record WCAGResult =
  foreground :: string
  background :: string
  contrastRatio :: real
  aaLevel :: Level
  aaaLevel :: Level
  suggestions :: Suggestions

record Harmony =
  complementary :: "string list"
  triadic :: "string list"
  tetradic :: "string list"
  analogous :: "string list"
  splitComplementary :: "string list"

text \<open>
  What the utilities can throw: the error of \<^verbatim>\<open>mixMultipleColors\<close> on fewer than two
  colours, and the error of the chroma constructor on a string it cannot read.
\<close>

datatype error = InsufficientColors | UnknownFormat

section \<open>Colour utilities\<close>

definition rgbToHex :: "real \<Rightarrow> real \<Rightarrow> real \<Rightarrow> string" where
  "rgbToHex r g b = rgb2hex (chroma_rgb r g b)"

definition hexToRgb :: "chroma_lib \<Rightarrow> string \<Rightarrow> error + RGBColor" where
  "hexToRgb L hx =
     (case chroma L hx of None \<Rightarrow> Inl UnknownFormat
      | Some c \<Rightarrow> (case rgb_of c of (r, g, b) \<Rightarrow>
          Inr \<lparr>rgb_r = js_round (of_int r), rgb_g = js_round (of_int g),
               rgb_b = js_round (of_int b)\<rparr>))"

text \<open>\<^verbatim>\<open>h || 0\<close> on a hue that may be \<^verbatim>\<open>NaN\<close>.\<close>

definition hue_or_zero :: "real option \<Rightarrow> real" where
  "hue_or_zero h = (case h of None \<Rightarrow> 0 | Some x \<Rightarrow> x)"

definition rgbToHsl :: "real \<Rightarrow> real \<Rightarrow> real \<Rightarrow> HSLColor" where
  "rgbToHsl r g b = (case rgb2hsl (chroma_rgb r g b) of (h, s, l) \<Rightarrow>
     \<lparr>hsl_h = js_round (hue_or_zero h), hsl_s = js_round (s * 100), hsl_l = js_round (l * 100)\<rparr>)"

text \<open>\<^verbatim>\<open>String.prototype.toUpperCase\<close> on the ASCII letters.\<close>

definition upper_char :: "char \<Rightarrow> char" where
  "upper_char c =
     (case map_of (zip ''abcdefghijklmnopqrstuvwxyz'' ''ABCDEFGHIJKLMNOPQRSTUVWXYZ'') c of
        Some u \<Rightarrow> u
      | None \<Rightarrow> c)"

definition toUpperCase :: "string \<Rightarrow> string" where
  "toUpperCase s = map upper_char s"

definition colorNames :: "(string \<times> color_label) list" where
  "colorNames =
     [(''#FF0000'', Red), (''#00FF00'', Green), (''#0000FF'', Blue), (''#FFFF00'', Yellow),
      (''#FF00FF'', Magenta), (''#00FFFF'', Cyan), (''#000000'', Black), (''#FFFFFF'', White),
      (''#808080'', Gray), (''#FFA500'', Orange), (''#800080'', Purple), (''#FFC0CB'', Pink),
      (''#A52A2A'', Brown), (''#008000'', DarkGreen), (''#000080'', Navy)]"

definition getColorName :: "chroma_lib \<Rightarrow> string \<Rightarrow> error + color_label" where
  "getColorName L hx =
     (case map_of colorNames (toUpperCase hx) of Some n \<Rightarrow> Inr n
      | None \<Rightarrow> (case chroma L hx of None \<Rightarrow> Inl UnknownFormat
      | Some c \<Rightarrow> (case rgb2hsl c of (h0, s, l) \<Rightarrow>
          (let h = hue_or_zero h0 in
           Inr (if s < 1 / 10 then
                  (if l < 2 / 10 then DarkGray
                   else if l < 5 / 10 then Gray
                   else if l < 8 / 10 then LightGray
                   else White)
                else if l < 15 / 100 then Dark
                else if l > 85 / 100 then Light
                else if h < 15 \<or> h > 345 then RedTone
                else if h < 45 then OrangeTone
                else if h < 75 then YellowTone
                else if h < 150 then GreenTone
                else if h < 180 then CyanTone
                else if h < 250 then BlueTone
                else if h < 290 then PurpleTone
                else if h < 345 then PinkTone
                else Custom)))))"

text \<open>
  \<^verbatim>\<open>createColorInfo(r, g, b, id)\<close>.  Every caller passes integers.  \<open>gen\<close> is the string
  that \<^verbatim>\<open>generateColorId()\<close> draws from \<^verbatim>\<open>Math.random\<close>; it is used when no id, or an
  empty one, is given.
\<close>

definition createColorInfo ::
  "chroma_lib \<Rightarrow> string \<Rightarrow> int \<Rightarrow> int \<Rightarrow> int \<Rightarrow> string option \<Rightarrow> error + ColorInfo" where
  "createColorInfo L gen r g b given =
     (let hx = rgbToHex (of_int r) (of_int g) (of_int b) in
      case getColorName L hx of Inl e \<Rightarrow> Inl e
      | Inr n \<Rightarrow>
          Inr \<lparr>hex = hx,
               rgb = \<lparr>rgb_r = r, rgb_g = g, rgb_b = b\<rparr>,
               hsl = rgbToHsl (of_int r) (of_int g) (of_int b),
               name = Label n,
               colorId = Some (case given of None \<Rightarrow> gen
                               | Some i \<Rightarrow> if i = [] then gen else i)\<rparr>)"

definition mixColors ::
  "chroma_lib \<Rightarrow> string \<Rightarrow> ColorInfo \<Rightarrow> ColorInfo \<Rightarrow> real \<Rightarrow> error + MixedColor" where
  "mixColors L gen color1 color2 w =
     (case chroma_mix L (hex color1) (hex color2) w of None \<Rightarrow> Inl UnknownFormat
      | Some mixed \<Rightarrow> (case rgb_of mixed of (r, g, b) \<Rightarrow>
          (case createColorInfo L gen (js_round (of_int r)) (js_round (of_int g))
                  (js_round (of_int b)) None of
             Inl e \<Rightarrow> Inl e
           | Inr ci \<Rightarrow>
               Inr \<lparr>hex = hex ci, rgb = rgb ci, hsl = hsl ci,
                    name = Times (name color1) (name color2),
                    colorId = colorId ci,
                    parentColors = [colorId color1, colorId color2],
                    ratio = [1 - w, w]\<rparr>)))"

text \<open>
  \<^verbatim>\<open>colors[i].hex\<close>: reading a field of \<^verbatim>\<open>undefined\<close> throws, so an index out of range
  is \<open>None\<close>.
\<close>

definition hex_at :: "ColorInfo list \<Rightarrow> nat \<Rightarrow> string option" where
  "hex_at colors i = (if i < length colors then Some (hex (colors ! i)) else None)"

text \<open>
  The loop \<^verbatim>\<open>for (i = ...; i < n; i++) currentMix = chroma.mix(currentMix, colors[i].hex,
  1 / (i + 1)).hex()\<close>, which the mixer contains three times; \<open>None\<close> when a step throws.
\<close>

function mixLoop ::
  "chroma_lib \<Rightarrow> ColorInfo list \<Rightarrow> nat \<Rightarrow> nat \<Rightarrow> string \<Rightarrow> string option" where
  "mixLoop L colors i n currentMix =
     (if i < n then
        (case hex_at colors i of None \<Rightarrow> None
         | Some h \<Rightarrow> (case mix_hex L currentMix h (1 / (real i + 1)) of None \<Rightarrow> None
         | Some m \<Rightarrow> mixLoop L colors (i + 1) n m))
      else Some currentMix)"
  by pat_completeness auto
termination
  by (relation "measure (\<lambda>(L, colors, i, n, currentMix). n - i)") auto

declare mixLoop.simps [simp del]

definition mixMultipleColors ::
  "chroma_lib \<Rightarrow> string \<Rightarrow> ColorInfo list \<Rightarrow> error + MixedColor" where
  "mixMultipleColors L gen colors =
     (if length colors < 2 then Inl InsufficientColors
      else if length colors = 2 then mixColors L gen (colors ! 0) (colors ! 1) (1 / 2)
      else
        (case mixLoop L colors 1 (length colors) (hex (colors ! 0)) of
           None \<Rightarrow> Inl UnknownFormat
         | Some currentMix \<Rightarrow> (case chroma L currentMix of None \<Rightarrow> Inl UnknownFormat
         | Some c \<Rightarrow> (case rgb_of c of (r, g, b) \<Rightarrow>
             (case createColorInfo L gen (js_round (of_int r)) (js_round (of_int g))
                     (js_round (of_int b)) None of
                Inl e \<Rightarrow> Inl e
              | Inr ci \<Rightarrow>
                  Inr \<lparr>hex = hex ci, rgb = rgb ci, hsl = hsl ci,
                       name = Mixture (map name colors),
                       colorId = colorId ci,
                       parentColors = map colorId colors,
                       ratio = map (\<lambda>c. 1 / real (length colors)) colors\<rparr>)))))"

section \<open>Mixing animation\<close>

text \<open>
  \<^verbatim>\<open>getMixedColorAtProgress(colors, progress)\<close>, called with three or more colours and
  a progress in \<open>[0, 1]\<close>; \<open>None\<close> when a step throws.
\<close>

definition getMixedColorAtProgress ::
  "chroma_lib \<Rightarrow> ColorInfo list \<Rightarrow> real \<Rightarrow> string option" where
  "getMixedColorAtProgress L colors p =
     (case hex_at colors 0 of None \<Rightarrow> None
      | Some first \<Rightarrow>
        if p \<le> 0 then Some first
        else if p \<ge> 1 then mixLoop L colors 1 (length colors) first
        else
          (let totalColors = length colors;
               currentStage = p * (real totalColors - 1);
               stageIndex = nat \<lfloor>currentStage\<rfloor>;
               stageProgress = currentStage - real stageIndex
           in if stageIndex = 0 then
                (case hex_at colors 1 of None \<Rightarrow> None
                 | Some second \<Rightarrow> mix_hex L first second stageProgress)
              else
                (case mixLoop L colors 1 (stageIndex + 1) first of None \<Rightarrow> None
                 | Some currentMix \<Rightarrow>
                     if stageIndex + 1 < length colors then
                       mix_hex L currentMix (hex (colors ! (stageIndex + 1)))
                         (stageProgress / (real stageIndex + 2))
                     else Some currentMix)))"

text \<open>
  The progress that the loop of \<^verbatim>\<open>generateColorMixingAnimation\<close> hands to the mixer in
  step \<open>i\<close>: \<^verbatim>\<open>Math.max(0, Math.min(1, i / steps + (Math.random() - 0.5) * 0.1))\<close>.
  \<open>rnd i\<close> is the value that \<^verbatim>\<open>Math.random()\<close> returns in step \<open>i\<close>.
\<close>

definition jitter :: "(nat \<Rightarrow> real) \<Rightarrow> nat \<Rightarrow> real" where
  "jitter rnd i = (rnd i - 1 / 2) * (1 / 10)"

definition adjustedProgress :: "(nat \<Rightarrow> real) \<Rightarrow> nat \<Rightarrow> nat \<Rightarrow> real" where
  "adjustedProgress rnd steps i = max 0 (min 1 (real i / real steps + jitter rnd i))"

text \<open>
  One frame.  With \<open>steps = 0\<close> the only step has \<^verbatim>\<open>0 / 0\<close>, that is \<^verbatim>\<open>NaN\<close>, as its
  progress: every comparison with it is false, so three or more colours give the first
  colour's hex, and two colours are mixed with a \<^verbatim>\<open>NaN\<close> weight, which prints as
  \<^verbatim>\<open>#000000\<close>.
\<close>

definition frameAt ::
  "chroma_lib \<Rightarrow> (nat \<Rightarrow> real) \<Rightarrow> ColorInfo list \<Rightarrow> nat \<Rightarrow> nat \<Rightarrow> Frame option" where
  "frameAt L rnd colors steps i =
     (if steps = 0 then
        (if length colors = 2 then
           (case chroma_mix L (hex (colors ! 0)) (hex (colors ! 1)) 0 of None \<Rightarrow> None
            | Some c \<Rightarrow> Some \<lparr>frame_hex = ''#000000'', progress = NaN\<rparr>)
         else
           (case hex_at colors 0 of None \<Rightarrow> None
            | Some first \<Rightarrow> Some \<lparr>frame_hex = first, progress = NaN\<rparr>))
      else
        (case (if length colors = 2
               then mix_hex L (hex (colors ! 0)) (hex (colors ! 1)) (adjustedProgress rnd steps i)
               else getMixedColorAtProgress L colors (adjustedProgress rnd steps i)) of
           None \<Rightarrow> None
         | Some mixedColor \<Rightarrow>
             Some \<lparr>frame_hex = mixedColor, progress = Num (real i / real steps)\<rparr>))"

text \<open>The loop \<^verbatim>\<open>for (let i = 0; i <= steps; i++)\<close>, collecting the frames.\<close>

function animationLoop ::
  "chroma_lib \<Rightarrow> (nat \<Rightarrow> real) \<Rightarrow> ColorInfo list \<Rightarrow> nat \<Rightarrow> nat \<Rightarrow> Frame list
   \<Rightarrow> error + Frame list" where
  "animationLoop L rnd colors steps i frames =
     (if i \<le> steps then
        (case frameAt L rnd colors steps i of None \<Rightarrow> Inl UnknownFormat
         | Some f \<Rightarrow> animationLoop L rnd colors steps (i + 1) (frames @ [f]))
      else Inr frames)"
  by pat_completeness auto
termination
  by (relation "measure (\<lambda>(L, rnd, colors, steps, i, frames). steps + 1 - i)") auto

declare animationLoop.simps [simp del]

text \<open>
  \<^verbatim>\<open>generateColorMixingAnimation(colors, steps)\<close> for a natural number of steps.  On
  fewer than two colours it returns one frame, with \<^verbatim>\<open>colors[0]?.hex || '#000000'\<close> as
  its colour: the fallback is taken when there is no first colour and when its hex is
  the empty string.
\<close>

definition generateColorMixingAnimation ::
  "chroma_lib \<Rightarrow> (nat \<Rightarrow> real) \<Rightarrow> ColorInfo list \<Rightarrow> nat \<Rightarrow> error + Frame list" where
  "generateColorMixingAnimation L rnd colors steps =
     (if length colors < 2 then
        Inr [\<lparr>frame_hex = (case colors of [] \<Rightarrow> ''#000000''
                            | c # cs \<Rightarrow> if hex c = [] then ''#000000'' else hex c),
              progress = Num 1\<rparr>]
      else animationLoop L rnd colors steps 0 [])"

section \<open>Advanced colour utilities\<close>

subsection \<open>Colour difference\<close>

text \<open>
  The body of the \<^verbatim>\<open>try\<close> block of \<^verbatim>\<open>calculateDeltaE2000\<close>; \<open>None\<close> when it throws.
\<close>

definition deltaE2000_try :: "chroma_lib \<Rightarrow> string \<Rightarrow> string \<Rightarrow> real option" where
  "deltaE2000_try L color1 color2 =
     (case chroma L color1 of None \<Rightarrow> None
      | Some chromaColor1 \<Rightarrow> (case chroma L color2 of None \<Rightarrow> None
      | Some chromaColor2 \<Rightarrow>
          if \<not> valid L color1 \<or> \<not> valid L color2 then Some 100
          else (case chroma_deltaE L color1 color2 of None \<Rightarrow> None
                | Some deltaE \<Rightarrow> (case deltaE of Num x \<Rightarrow> Some (round2 x)
                                | _ \<Rightarrow> Some 100))))"

text \<open>The same for \<^verbatim>\<open>calculateDeltaE94\<close>, which scales the difference by 0.95.\<close>

definition deltaE94_try :: "chroma_lib \<Rightarrow> string \<Rightarrow> string \<Rightarrow> real option" where
  "deltaE94_try L color1 color2 =
     (case chroma L color1 of None \<Rightarrow> None
      | Some chromaColor1 \<Rightarrow> (case chroma L color2 of None \<Rightarrow> None
      | Some chromaColor2 \<Rightarrow>
          if \<not> valid L color1 \<or> \<not> valid L color2 then Some 100
          else (case chroma_deltaE L color1 color2 of None \<Rightarrow> None
                | Some baseDeltaE \<Rightarrow> (case baseDeltaE of
                    Num x \<Rightarrow> Some (round2 (x * (95 / 100)))
                  | _ \<Rightarrow> Some 100))))"

text \<open>
  The fallback in the \<^verbatim>\<open>catch\<close> blocks: the Euclidean distance of the rounded RGB
  channels, scaled to 100; \<open>None\<close> when the fallback throws as well.
\<close>

definition simpleDiff :: "chroma_lib \<Rightarrow> string \<Rightarrow> string \<Rightarrow> real option" where
  "simpleDiff L color1 color2 =
     (case chroma L color1 of None \<Rightarrow> None
      | Some c1 \<Rightarrow> (case chroma L color2 of None \<Rightarrow> None
      | Some c2 \<Rightarrow> (case rgb_of c1 of (r1, g1, b1) \<Rightarrow> case rgb_of c2 of (r2, g2, b2) \<Rightarrow>
          Some (sqrt (real_of_int ((r1 - r2)\<^sup>2 + (g1 - g2)\<^sup>2 + (b1 - b2)\<^sup>2))
                / sqrt (3 * 255 * 255) * 100))))"

definition calculateDeltaE2000 :: "chroma_lib \<Rightarrow> string \<Rightarrow> string \<Rightarrow> real" where
  "calculateDeltaE2000 L color1 color2 =
     (case deltaE2000_try L color1 color2 of Some v \<Rightarrow> v
      | None \<Rightarrow> (case simpleDiff L color1 color2 of Some d \<Rightarrow> round2 d
      | None \<Rightarrow> 100))"

definition calculateDeltaE94 :: "chroma_lib \<Rightarrow> string \<Rightarrow> string \<Rightarrow> real" where
  "calculateDeltaE94 L color1 color2 =
     (case deltaE94_try L color1 color2 of Some v \<Rightarrow> v
      | None \<Rightarrow> (case simpleDiff L color1 color2 of Some d \<Rightarrow> round2 (d * (95 / 100))
      | None \<Rightarrow> 100))"

subsection \<open>WCAG\<close>

definition createEmptyWCAGResult :: "string \<Rightarrow> string \<Rightarrow> WCAGResult" where
  "createEmptyWCAGResult fg bg =
     \<lparr>foreground = fg, background = bg, contrastRatio = 1,
      aaLevel = \<lparr>normal = False, large = False\<rparr>,
      aaaLevel = \<lparr>normal = False, large = False\<rparr>,
      suggestions = \<lparr>lightVersion = fg, darkVersion = fg\<rparr>\<rparr>"

text \<open>
  The two \<^verbatim>\<open>while\<close> loops of \<^verbatim>\<open>generateWCAGSuggestions\<close>.  The state is the current
  version, its ratio and the iteration count; \<open>adjust\<close> is \<^verbatim>\<open>brighten\<close> in the first loop
  and \<^verbatim>\<open>darken\<close> in the second.  A step that throws, or that does not improve the ratio,
  leaves the loop with the state unchanged.  Every call that can throw stands inside the
  inner \<^verbatim>\<open>try\<close> of its loop, so the outer \<^verbatim>\<open>catch\<close> of the function is never entered.
\<close>

definition targetRatio :: real where
  "targetRatio = 45 / 10"

definition maxIterations :: nat where
  "maxIterations = 20"

function suggestionLoop ::
  "chroma_lib \<Rightarrow> (chroma_color \<Rightarrow> real \<Rightarrow> chroma_color) \<Rightarrow> string
   \<Rightarrow> string \<times> real \<times> nat \<Rightarrow> string \<times> real \<times> nat" where
  "suggestionLoop L adjust bg (version, curRatio, iterations) =
     (if curRatio < targetRatio \<and> iterations < maxIterations then
        (case chroma L version of None \<Rightarrow> (version, curRatio, iterations)
         | Some c \<Rightarrow>
           (let newColor = rgb2hex (clip_rgb (adjust c (3 / 10))) in
            case chroma_contrast L newColor bg of None \<Rightarrow> (version, curRatio, iterations)
            | Some newRatio \<Rightarrow>
              (case newRatio of
                 Num x \<Rightarrow>
                   if x \<le> curRatio then (version, curRatio, iterations)
                   else if x > 21 then (newColor, x, iterations + 1)
                   else suggestionLoop L adjust bg (newColor, x, iterations + 1)
               | _ \<Rightarrow> (version, curRatio, iterations))))
      else (version, curRatio, iterations))"
  by pat_completeness auto
termination
  by (relation "measure (\<lambda>(L, adjust, bg, version, curRatio, iterations).
        maxIterations - iterations)") auto

declare suggestionLoop.simps [simp del]

definition generateWCAGSuggestions :: "chroma_lib \<Rightarrow> string \<Rightarrow> string \<Rightarrow> real \<Rightarrow> Suggestions" where
  "generateWCAGSuggestions L fg bg currentRatio =
     \<lparr>lightVersion = fst (suggestionLoop L (brighten L) bg (fg, currentRatio, 0)),
      darkVersion = fst (suggestionLoop L (darken L) bg (fg, currentRatio, 0))\<rparr>"

definition checkWCAGCompliance :: "chroma_lib \<Rightarrow> string \<Rightarrow> string \<Rightarrow> WCAGResult" where
  "checkWCAGCompliance L fg bg =
     (case chroma L fg of None \<Rightarrow> createEmptyWCAGResult fg bg
      | Some chromaFg \<Rightarrow> (case chroma L bg of None \<Rightarrow> createEmptyWCAGResult fg bg
      | Some chromaBg \<Rightarrow>
          if \<not> valid L fg \<or> \<not> valid L bg then createEmptyWCAGResult fg bg
          else (case chroma_contrast L fg bg of None \<Rightarrow> createEmptyWCAGResult fg bg
                | Some c \<Rightarrow> (case c of
                    Num x \<Rightarrow>
                      (let roundedRatio = round2 x in
                       \<lparr>foreground = fg, background = bg, contrastRatio = roundedRatio,
                        aaLevel = \<lparr>normal = (roundedRatio \<ge> 45 / 10),
                                   large = (roundedRatio \<ge> 3)\<rparr>,
                        aaaLevel = \<lparr>normal = (roundedRatio \<ge> 7),
                                    large = (roundedRatio \<ge> 45 / 10)\<rparr>,
                        suggestions = generateWCAGSuggestions L fg bg roundedRatio\<rparr>)
                  | _ \<Rightarrow> createEmptyWCAGResult fg bg))))"

subsection \<open>Harmony\<close>

text \<open>The remainder operator \<^verbatim>\<open>%\<close>, whose result has the sign of the dividend.\<close>

definition js_rem :: "real \<Rightarrow> real \<Rightarrow> real" where
  "js_rem x m = x - m * of_int (if 0 \<le> x / m then \<lfloor>x / m\<rfloor> else \<lceil>x / m\<rceil>)"

text \<open>\<^verbatim>\<open>chroma.hsl(h, s, l).hex()\<close>.\<close>

definition hsl_hex :: "real \<Rightarrow> real \<Rightarrow> real \<Rightarrow> string" where
  "hsl_hex h s l = rgb2hex (chroma_hsl h s l)"

text \<open>\<^verbatim>\<open>x || 0.5\<close> on a number: zero is falsy, so it is replaced as well.\<close>

definition or_half :: "real \<Rightarrow> real" where
  "or_half x = (if x = 0 then 1 / 2 else x)"

definition calculateAdvancedHarmony :: "chroma_lib \<Rightarrow> string \<Rightarrow> error + Harmony" where
  "calculateAdvancedHarmony L baseColor =
     (case chroma L baseColor of None \<Rightarrow> Inl UnknownFormat
      | Some c \<Rightarrow> (case rgb2hsl c of (h0, s0, l0) \<Rightarrow>
          (let h = hue_or_zero h0; s = or_half s0; l = or_half l0 in
           Inr \<lparr>complementary = [hsl_hex (js_rem (h + 180) 360) s l],
                triadic = [hsl_hex (js_rem (h + 120) 360) s l,
                           hsl_hex (js_rem (h + 240) 360) s l],
                tetradic = [hsl_hex (js_rem (h + 90) 360) s l,
                            hsl_hex (js_rem (h + 180) 360) s l,
                            hsl_hex (js_rem (h + 270) 360) s l],
                analogous = [hsl_hex (js_rem (h - 30 + 360) 360) s l,
                             hsl_hex (js_rem (h + 30) 360) s l],
                splitComplementary = [hsl_hex (js_rem (h + 150) 360) s l,
                                      hsl_hex (js_rem (h + 210) 360) s l]\<rparr>)))"

section \<open>The specification's reading of N-way mixing\<close>

text \<open>
  The specification describes \<^verbatim>\<open>mixMany\<close> in words: blend colour 1 and colour 2 at
  weight 1/2, blend that result with colour 3 at weight 1/3, and so on.  The two
  definitions below follow that sentence, by recursion over the list of the colours still
  to be blended; \<open>k\<close> is the position of the next colour, counted from 1.  They are
  compared with \<open>mixMultipleColors\<close>, which is written from the source.
\<close>

fun spec_blendFrom :: "chroma_lib \<Rightarrow> string \<Rightarrow> nat \<Rightarrow> ColorInfo list \<Rightarrow> string option" where
  "spec_blendFrom L acc k [] = Some acc"
| "spec_blendFrom L acc k (c # cs) =
     (case mix_hex L acc (hex c) (1 / real k) of None \<Rightarrow> None
      | Some m \<Rightarrow> spec_blendFrom L m (k + 1) cs)"

definition spec_sequentialBlend :: "chroma_lib \<Rightarrow> ColorInfo list \<Rightarrow> string option" where
  "spec_sequentialBlend L colors =
     (case colors of [] \<Rightarrow> None | c # cs \<Rightarrow> spec_blendFrom L (hex c) 2 cs)"

section \<open>A library instance for evaluation\<close>

text \<open>
  The smallest value of \<open>chroma_lib\<close>: it reads hex strings only, reports no difference
  and no contrast, and leaves colours as they are.  It serves to run the model on
  concrete inputs; no general statement depends on it.
\<close>

definition plain_lib :: chroma_lib where
  "plain_lib =
     \<lparr>other_formats = (\<lambda>s. None),
      ciede2000 = (\<lambda>a b. Num 0),
      contrast_ratio = (\<lambda>a b. Num 1),
      brighten = (\<lambda>c amount. c),
      darken = (\<lambda>c amount. c)\<rparr>"

text \<open>Three colour records, as \<^verbatim>\<open>createColorInfo\<close> builds them for the primaries.\<close>

definition redColor :: ColorInfo where
  "redColor =
     \<lparr>hex = ''#ff0000'', rgb = \<lparr>rgb_r = 255, rgb_g = 0, rgb_b = 0\<rparr>,
      hsl = \<lparr>hsl_h = 0, hsl_s = 100, hsl_l = 50\<rparr>, name = Label Red,
      colorId = Some ''color_red''\<rparr>"

definition greenColor :: ColorInfo where
  "greenColor =
     \<lparr>hex = ''#00ff00'', rgb = \<lparr>rgb_r = 0, rgb_g = 255, rgb_b = 0\<rparr>,
      hsl = \<lparr>hsl_h = 120, hsl_s = 100, hsl_l = 50\<rparr>, name = Label Green,
      colorId = Some ''color_green''\<rparr>"

definition blueColor :: ColorInfo where
  "blueColor =
     \<lparr>hex = ''#0000ff'', rgb = \<lparr>rgb_r = 0, rgb_g = 0, rgb_b = 255\<rparr>,
      hsl = \<lparr>hsl_h = 240, hsl_s = 100, hsl_l = 50\<rparr>, name = Label Blue,
      colorId = Some ''color_blue''\<rparr>"


text \<open>A run in which every call of \<^verbatim>\<open>Math.random()\<close> returns 0.\<close>

definition rnd_zero :: "nat \<Rightarrow> real" where
  "rnd_zero i = 0"

text \<open>A run in which every call of \<^verbatim>\<open>Math.random()\<close> returns 0.5, so that no jitter is added.\<close>

definition rnd_half :: "nat \<Rightarrow> real" where
  "rnd_half i = 1 / 2"

text \<open>
  A library whose colour difference takes two values that lie close together: 2.0925
  against the colour \<^verbatim>\<open>#f7010c\<close> and 2.0974 against \<^verbatim>\<open>#f72218\<close>.  CIEDE2000 itself is
  not modelled; the two values stand for differences of this size, which near-identical
  colours have.
\<close>

definition tie_lib :: chroma_lib where
  "tie_lib =
     \<lparr>other_formats = (\<lambda>s. None),
      ciede2000 = (\<lambda>a b. if b = (247, 1, 12) then Num (20925 / 10000)
                          else if b = (247, 34, 24) then Num (20974 / 10000)
                          else Num 0),
      contrast_ratio = (\<lambda>a b. Num 1),
      brighten = (\<lambda>c amount. c),
      darken = (\<lambda>c amount. c)\<rparr>"

section \<open>Lemmas about the library model\<close>

lemma js_round_of_int [simp]: "js_round (of_int n) = n"
  by (simp add: js_round_def)

lemma toString16_numeral [simp]:
  "toString16 (numeral k) =
     (if (numeral k :: nat) < 16 then [hex_digit (numeral k)]
      else toString16 (numeral k div 16) @ [hex_digit (numeral k mod 16)])"
  "toString16 0 = [hex_digit 0]"
  "toString16 (Suc 0) = [hex_digit 1]"
  by (simp_all add: toString16.simps)

lemma digit_value_hex_digit: "d < 16 \<Longrightarrow> digit_value (hex_digit d) = d"
proof -
  assume "d < 16"
  then have "d = 0 \<or> d = 1 \<or> d = 2 \<or> d = 3 \<or> d = 4 \<or> d = 5 \<or> d = 6 \<or> d = 7 \<or> d = 8
      \<or> d = 9 \<or> d = 10 \<or> d = 11 \<or> d = 12 \<or> d = 13 \<or> d = 14 \<or> d = 15" by arith
  then show ?thesis
    by (auto simp: digit_value_def hex_digit_def)
qed

lemma is_hex_digit_hex_digit: "d < 16 \<Longrightarrow> is_hex_digit (hex_digit d)"
proof -
  assume "d < 16"
  then have "d = 0 \<or> d = 1 \<or> d = 2 \<or> d = 3 \<or> d = 4 \<or> d = 5 \<or> d = 6 \<or> d = 7 \<or> d = 8
      \<or> d = 9 \<or> d = 10 \<or> d = 11 \<or> d = 12 \<or> d = 13 \<or> d = 14 \<or> d = 15" by arith
  then show ?thesis
    by (auto simp: is_hex_digit_def hex_digit_def)
qed

lemma parseInt16_snoc: "parseInt16 (s @ [c]) = 16 * parseInt16 s + digit_value c"
  by (simp add: parseInt16_def)

lemma parseInt16_toString16: "parseInt16 (toString16 n) = n"
proof (induction n rule: toString16.induct)
  case (1 n)
  show ?case
  proof (cases "n < 16")
    case True
    then show ?thesis
      by (simp add: toString16.simps [of n] parseInt16_def digit_value_hex_digit)
  next
    case False
    with 1 have "parseInt16 (toString16 (n div 16)) = n div 16" by simp
    with False show ?thesis
      by (simp add: toString16.simps [of n] parseInt16_snoc digit_value_hex_digit)
  qed
qed

lemma toString16_digits: "list_all is_hex_digit (toString16 n)"
proof (induction n rule: toString16.induct)
  case (1 n)
  show ?case
  proof (cases "n < 16")
    case True
    then show ?thesis
      by (simp add: toString16.simps [of n] is_hex_digit_hex_digit)
  next
    case False
    with 1 have "list_all is_hex_digit (toString16 (n div 16))" by simp
    with False show ?thesis
      by (simp add: toString16.simps [of n] is_hex_digit_hex_digit)
  qed
qed

lemma toString16_length: "n < 16 ^ k \<Longrightarrow> 0 < k \<Longrightarrow> length (toString16 n) \<le> k"
proof (induction n arbitrary: k rule: toString16.induct)
  case (1 n)
  show ?case
  proof (cases "n < 16")
    case True
    with 1(3) show ?thesis
      by (simp add: toString16.simps [of n])
  next
    case False
    from False 1(2) have k: "1 < k"
      by (cases k; cases "k - 1") auto
    then obtain j where j: "k = Suc j" "0 < j" by (cases k) auto
    from 1(2) j have "n div 16 < 16 ^ j"
      by (simp add: less_mult_imp_div_less mult.commute)
    with 1(1) [OF False this] j have "length (toString16 (n div 16)) \<le> j" by simp
    with False j show ?thesis
      by (simp add: toString16.simps [of n])
  qed
qed

lemma toString16_nonempty: "toString16 n \<noteq> []"
  by (cases "n < 16") (simp_all add: toString16.simps [of n])

lemma parseInt16_zeros: "parseInt16 (replicate k CHR ''0'' @ s) = parseInt16 s"
proof -
  have "foldl (\<lambda>acc c. 16 * acc + digit_value c) 0 (replicate k CHR ''0'') = 0"
    by (induction k) (simp_all add: replicate_append_same digit_value_def)
  then show ?thesis by (simp add: parseInt16_def)
qed



lemma and_255: "(x::int) AND 255 = x mod 256"
proof -
  have "x AND 255 = x AND mask 8" by (simp add: mask_eq_exp_minus_1)
  also have "\<dots> = take_bit 8 x" by (simp add: take_bit_eq_mask)
  also have "\<dots> = x mod 256" by (simp add: take_bit_eq_mod)
  finally show ?thesis .
qed

lemma push_bit_or_add:
  assumes "0 \<le> b" "b < 2 ^ k"
  shows "push_bit k a OR b = push_bit k a + (b::int)"
proof -
  from assms have b: "take_bit k b = b" by (simp add: take_bit_int_eq_self)
  have "push_bit k a + take_bit k b = push_bit k a OR take_bit k b"
    by (rule disjunctive_add) (auto simp: bit_push_bit_iff bit_take_bit_iff)
  with b show ?thesis by simp
qed

lemma pack_eq:
  assumes "0 \<le> g" "g < 256" "0 \<le> b" "b < 256"
  shows "push_bit 16 (r::int) OR push_bit 8 g OR b = r * 65536 + g * 256 + b"
proof -
  have gb: "push_bit 8 g OR b = g * 256 + b"
    using push_bit_or_add [of b 8 g] assms by (simp add: push_bit_eq_mult)
  have "0 \<le> g * 256 + b" "g * 256 + b < 2 ^ 16" using assms by auto
  from push_bit_or_add [OF this, of r] gb show ?thesis
    by (simp add: push_bit_eq_mult or.assoc)
qed

lemma unpack:
  assumes "0 \<le> r" "r < 256" "0 \<le> g" "g < 256" "0 \<le> b" "b < 256"
  shows "drop_bit 16 (r * 65536 + g * 256 + b) = (r::int)"
    and "drop_bit 8 (r * 65536 + g * 256 + b) AND 255 = g"
    and "(r * 65536 + g * 256 + b) AND 255 = b"
proof -
  have e8: "r * 65536 + g * 256 + b = (r * 256 + g) * 256 + b" by simp
  have e16: "r * 65536 + g * 256 + b = r * 65536 + (g * 256 + b)" by simp
  have gb: "0 \<le> g * 256 + b" "g * 256 + b < 65536" using assms by auto
  have b0: "b div 256 = 0" "b mod 256 = b"
    using assms by (simp_all add: div_pos_pos_trivial mod_pos_pos_trivial)
  have gb0: "(g * 256 + b) div 65536 = 0"
    using gb by (simp add: div_pos_pos_trivial)
  have "((r * 256 + g) * 256 + b) div 256 = r * 256 + g + b div 256"
    by (rule div_mult_self3) simp
  then have d8: "(r * 65536 + g * 256 + b) div 256 = r * 256 + g"
    unfolding e8 b0 by simp
  have "((r * 256 + g) * 256 + b) mod 256 = b mod 256"
    by (rule mod_mult_self3)
  then have m8: "(r * 65536 + g * 256 + b) mod 256 = b"
    unfolding e8 b0 .
  have "(r * 65536 + (g * 256 + b)) div 65536 = r + (g * 256 + b) div 65536"
    by (rule div_mult_self3) simp
  then have d16: "(r * 65536 + g * 256 + b) div 65536 = r"
    unfolding e16 gb0 by simp
  have "(r * 256 + g) mod 256 = g mod 256"
    by (rule mod_mult_self3)
  then have rg: "(r * 256 + g) mod 256 = g"
    using assms by (simp add: mod_pos_pos_trivial)
  show "drop_bit 16 (r * 65536 + g * 256 + b) = r"
    unfolding drop_bit_eq_div using d16 by simp
  show "drop_bit 8 (r * 65536 + g * 256 + b) AND 255 = g"
    unfolding drop_bit_eq_div and_255 using d8 rg by simp
  show "(r * 65536 + g * 256 + b) AND 255 = b"
    unfolding and_255 by (rule m8)
qed




lemma zero_is_hex_digit: "is_hex_digit CHR ''0''"
  by (simp add: is_hex_digit_def)

lemma padded_hex:
  assumes "n < 16 ^ 6"
  defines "str \<equiv> ''000000'' @ toString16 n"
  shows "length (drop (length str - 6) str) = 6"
    and "list_all is_hex_digit (drop (length str - 6) str)"
    and "parseInt16 (drop (length str - 6) str) = n"
proof -
  let ?t = "toString16 n"
  have len: "length ?t \<le> 6" using toString16_length [OF assms(1)] by simp
  have ne: "0 < length ?t" using toString16_nonempty [of n] by simp
  have eq: "drop (length str - 6) str = replicate (6 - length ?t) CHR ''0'' @ ?t"
  proof -
    have "''000000'' = replicate 6 CHR ''0''" by (simp add: numeral_eq_Suc)
    then have "str = replicate 6 CHR ''0'' @ ?t" by (simp add: str_def)
    then show ?thesis using len by simp
  qed
  show "length (drop (length str - 6) str) = 6" unfolding eq using len by simp
  show "list_all is_hex_digit (drop (length str - 6) str)"
    unfolding eq using toString16_digits [of n] zero_is_hex_digit
    by (auto simp: list_all_iff)
  show "parseInt16 (drop (length str - 6) str) = n"
    unfolding eq by (simp add: parseInt16_zeros parseInt16_toString16)
qed

lemma limit_id: "lo \<le> x \<Longrightarrow> x \<le> hi \<Longrightarrow> limit x lo hi = x"
  by (simp add: limit_def)

lemma limit_bounds: "lo \<le> hi \<Longrightarrow> lo \<le> limit x lo hi \<and> limit x lo hi \<le> hi"
  by (auto simp: limit_def)

lemma js_round_range: "0 \<le> x \<Longrightarrow> x \<le> 255 \<Longrightarrow> 0 \<le> js_round x \<and> js_round x < 256"
  unfolding js_round_def by (simp add: floor_less_iff)

lemma chroma_rgb2hex_int:
  assumes "0 \<le> r" "r < 256" "0 \<le> g" "g < 256" "0 \<le> b" "b < 256"
  shows "chroma L (rgb2hex (of_int r, of_int g, of_int b)) = Some (of_int r, of_int g, of_int b)"
proof -
  let ?u = "r * 65536 + g * 256 + b"
  let ?str = "''000000'' @ toString16 (nat ?u)"
  let ?s = "drop (length ?str - 6) ?str"
  have u: "push_bit 16 r OR push_bit 8 g OR b = ?u" using assms by (simp add: pack_eq)
  have u0: "0 \<le> ?u" using assms by simp
  have "?u < 16777216" using assms by simp
  then have un: "nat ?u < 16 ^ 6" using u0 by simp
  note p = padded_hex [OF un]
  have hx: "rgb2hex (of_int r, of_int g, of_int b) = CHR ''#'' # ?s"
    by (simp only: rgb2hex_def Let_def split js_round_of_int u)
  have re: "RE_HEX (CHR ''#'' # ?s)"
    using p(1,2) by (simp add: RE_HEX_def strip_hash_def Let_def)
  have h2: "hex2rgb (CHR ''#'' # ?s) = (of_int r, of_int g, of_int b)"
    using p(1) p(3) u0 unpack [OF assms]
    by (simp add: hex2rgb_def Let_def)
  have cl: "clip_rgb (of_int r, of_int g, of_int b) = (of_int r, of_int g, of_int b)"
    using assms by (simp add: clip_rgb_def limit_id)
  show ?thesis unfolding hx chroma_def using re h2 cl by simp
qed

section \<open>Hex round trip\<close>

text \<open>
  C5.  For all integers \<open>r\<close>, \<open>g\<close>, \<open>b\<close> in \<open>[0, 255]\<close>,
  \<^verbatim>\<open>hexToRgb(rgbToHex(r, g, b))\<close> returns exactly \<open>(r, g, b)\<close>, whatever the rest of
  the library does.
\<close>

theorem hexToRgb_rgbToHex:
  assumes "0 \<le> r" "r \<le> 255" "0 \<le> g" "g \<le> 255" "0 \<le> b" "b \<le> 255"
  shows "hexToRgb L (rgbToHex (of_int r) (of_int g) (of_int b))
         = Inr \<lparr>rgb_r = r, rgb_g = g, rgb_b = b\<rparr>"
proof -
  have cl: "chroma_rgb (of_int r) (of_int g) (of_int b) = (of_int r, of_int g, of_int b)"
    using assms by (simp add: chroma_rgb_def clip_rgb_def limit_id)
  have "chroma L (rgb2hex (of_int r, of_int g, of_int b)) = Some (of_int r, of_int g, of_int b)"
    using assms by (intro chroma_rgb2hex_int) auto
  then show ?thesis
    by (simp add: hexToRgb_def rgbToHex_def cl rgb_of_def)
qed

theorem hexToRgb_rgbToHex_witness:
  "hexToRgb plain_lib (rgbToHex 255 165 0) = Inr \<lparr>rgb_r = 255, rgb_g = 165, rgb_b = 0\<rparr>"
  using hexToRgb_rgbToHex [of 255 165 0 plain_lib] by simp

section \<open>Too few colours\<close>

lemma createColorInfo_error: "createColorInfo L gen r g b i = Inl e \<Longrightarrow> e = UnknownFormat"
  by (auto simp: createColorInfo_def getColorName_def Let_def
      split: option.splits sum.splits prod.splits)

lemma mixColors_error: "mixColors L gen c1 c2 w = Inl e \<Longrightarrow> e = UnknownFormat"
  by (auto simp: mixColors_def split: option.splits sum.splits prod.splits
      dest: createColorInfo_error)

text \<open>
  C4.  \<^verbatim>\<open>mixMultipleColors\<close> fails with the insufficient-colours error exactly when it is
  given fewer than two colours: on the empty and the one-element list it returns that
  error and no colour, and on two or more colours it never returns that error.
\<close>

theorem mixMultipleColors_insufficient:
  "mixMultipleColors L gen colors = Inl InsufficientColors \<longleftrightarrow> length colors < 2"
proof
  assume l: "mixMultipleColors L gen colors = Inl InsufficientColors"
  show "length colors < 2"
  proof (rule ccontr)
    assume "\<not> length colors < 2"
    with l show False
      by (auto simp: mixMultipleColors_def split: if_splits option.splits prod.splits sum.splits
          dest: mixColors_error createColorInfo_error)
  qed
next
  assume "length colors < 2"
  then show "mixMultipleColors L gen colors = Inl InsufficientColors"
    by (simp add: mixMultipleColors_def)
qed

section \<open>Pure red\<close>

lemma rgbToHex_red: "rgbToHex 255 0 0 = ''#ff0000''"
  by (simp add: rgbToHex_def chroma_rgb_def clip_rgb_def limit_def rgb2hex_def js_round_def
      hex_digit_def)

lemma toUpperCase_red:
  "toUpperCase ''#ff0000'' = ''#FF0000''" "toUpperCase ''#FF0000'' = ''#FF0000''"
  by (simp_all add: toUpperCase_def upper_char_def)

text \<open>
  C8, as stated, fails in its first half: \<^verbatim>\<open>rgbToHex(255, 0, 0)\<close> is not the upper-case
  string \<^verbatim>\<open>"#FF0000"\<close>, because the library prints lower-case digits.
\<close>

theorem rgbToHex_red_uppercase_counterexample: "rgbToHex 255 0 0 \<noteq> ''#FF0000''"
  by (simp add: rgbToHex_red)

text \<open>
  C8, amended.  \<^verbatim>\<open>rgbToHex(255, 0, 0)\<close> returns \<^verbatim>\<open>"#ff0000"\<close>; \<^verbatim>\<open>getColorName\<close> of that
  string, and of \<^verbatim>\<open>"#FF0000"\<close>, is the red label of the table, since the lookup
  upper-cases its argument.
\<close>

theorem red_scenario:
  "rgbToHex 255 0 0 = ''#ff0000''
   \<and> getColorName L (rgbToHex 255 0 0) = Inr Red
   \<and> getColorName L ''#FF0000'' = Inr Red"
  by (simp add: rgbToHex_red getColorName_def toUpperCase_red colorNames_def)

section \<open>Evaluating with the plain library\<close>

lemma plain_lib_simps:
  "other_formats plain_lib s = None"
  "ciede2000 plain_lib a b = Num 0"
  "contrast_ratio plain_lib a b = Num 1"
  "brighten plain_lib c amount = c"
  "darken plain_lib c amount = c"
  by (simp_all add: plain_lib_def)

lemma plain_parse: "chroma plain_lib ''#777777'' = Some (119, 119, 119)"
  by (simp add: chroma_def RE_HEX_def strip_hash_def is_hex_digit_def hex2rgb_def parseInt16_def
      digit_value_def clip_rgb_def limit_def)

lemma hex_777: "rgb2hex (119, 119, 119) = ''#777777''"
  by (simp add: rgb2hex_def js_round_def hex_digit_def toString16_numeral)

lemma plain_invalid: "\<not> valid plain_lib ''#12345''"
  by (simp add: valid_def chroma_def RE_HEX_def strip_hash_def plain_lib_simps is_hex_digit_def)

section \<open>Termination of the suggestion search\<close>

lemma suggestionLoop_bound:
  "iterations \<le> maxIterations \<Longrightarrow>
   snd (snd (suggestionLoop L adjust bg (version, curRatio, iterations))) \<le> maxIterations"
proof (induction L adjust bg "(version, curRatio, iterations)"
    arbitrary: version curRatio iterations rule: suggestionLoop.induct)
  case (1 L adjust bg version curRatio iterations)
  show ?case
  proof (cases "curRatio < targetRatio \<and> iterations < maxIterations")
    case False
    show ?thesis
      unfolding suggestionLoop.simps [of L adjust bg version curRatio iterations] if_not_P [OF False]
      using 1(2) by simp
  next
    case True
    note IH = 1(1) [OF True]
    show ?thesis
      using True 1(2) IH
      by (subst suggestionLoop.simps)
        (auto simp: Let_def split: option.splits jsnum.splits)
  qed
qed

lemma suggestionLoop_stops:
  assumes "chroma L version = Some c"
    and "chroma_contrast L (rgb2hex (clip_rgb (adjust c (3 / 10)))) bg = Some (Num x)"
    and "x \<le> curRatio"
  shows "suggestionLoop L adjust bg (version, curRatio, iterations) = (version, curRatio, iterations)"
  using assms by (simp add: suggestionLoop.simps Let_def)

text \<open>
  C1.  The suggestion search of \<^verbatim>\<open>checkWCAGCompliance\<close> terminates for every foreground
  and background, equal or not: the brightening loop and the darkening loop each count
  at most 20 iterations; a step whose contrast ratio is not above the current one leaves
  the loop at once; and the result always carries both suggestions, which are either the
  foreground itself (the empty result) or the two versions the loops return.
  Termination itself is the termination proof of \<open>suggestionLoop\<close>, whose measure is the
  number of iterations left.
\<close>

theorem wcag_suggestions_terminate:
  "snd (snd (suggestionLoop L (brighten L) bg (fg, r, 0))) \<le> 20
   \<and> snd (snd (suggestionLoop L (darken L) bg (fg, r, 0))) \<le> 20
   \<and> (chroma L v = Some c
        \<and> chroma_contrast L (rgb2hex (clip_rgb (adjust c (3 / 10)))) bg = Some (Num x) \<and> x \<le> r
        \<longrightarrow> suggestionLoop L adjust bg (v, r, n) = (v, r, n))
   \<and> (suggestions (checkWCAGCompliance L fg bg) = \<lparr>lightVersion = fg, darkVersion = fg\<rparr>
        \<or> (\<exists>y. chroma_contrast L fg bg = Some (Num y)
                \<and> suggestions (checkWCAGCompliance L fg bg)
                    = generateWCAGSuggestions L fg bg (round2 y)))"
proof -
  have a: "snd (snd (suggestionLoop L (brighten L) bg (fg, r, 0))) \<le> 20"
    using suggestionLoop_bound [of 0 L "brighten L" bg fg r] by (simp add: maxIterations_def)
  have b: "snd (snd (suggestionLoop L (darken L) bg (fg, r, 0))) \<le> 20"
    using suggestionLoop_bound [of 0 L "darken L" bg fg r] by (simp add: maxIterations_def)
  have c: "chroma L v = Some c
        \<and> chroma_contrast L (rgb2hex (clip_rgb (adjust c (3 / 10)))) bg = Some (Num x) \<and> x \<le> r
        \<longrightarrow> suggestionLoop L adjust bg (v, r, n) = (v, r, n)"
    using suggestionLoop_stops by blast
  have d: "suggestions (checkWCAGCompliance L fg bg) = \<lparr>lightVersion = fg, darkVersion = fg\<rparr>
        \<or> (\<exists>y. chroma_contrast L fg bg = Some (Num y)
                \<and> suggestions (checkWCAGCompliance L fg bg)
                    = generateWCAGSuggestions L fg bg (round2 y))"
    by (auto simp: checkWCAGCompliance_def createEmptyWCAGResult_def Let_def
        split: option.splits jsnum.splits)
  from a b c d show ?thesis by blast
qed

theorem wcag_suggestions_terminate_witness:
  "chroma plain_lib ''#777777'' = Some (119, 119, 119)
   \<and> chroma_contrast plain_lib (rgb2hex (clip_rgb (brighten plain_lib (119, 119, 119) (3 / 10))))
        ''#777777'' = Some (Num 1)
   \<and> suggestionLoop plain_lib (brighten plain_lib) ''#777777'' (''#777777'', 1, 0)
        = (''#777777'', 1, 0)
   \<and> snd (snd (suggestionLoop plain_lib (brighten plain_lib) ''#777777'' (''#777777'', 1, 0))) \<le> 20
   \<and> snd (snd (suggestionLoop plain_lib (darken plain_lib) ''#777777'' (''#777777'', 1, 0))) \<le> 20"
  using wcag_suggestions_terminate [where L = plain_lib and bg = "''#777777''"
      and fg = "''#777777''" and r = 1 and v = "''#777777''" and c = "(119, 119, 119)"
      and adjust = "brighten plain_lib" and x = 1 and n = 0]
  by (simp add: plain_parse plain_lib_simps hex_777 clip_rgb_def limit_def chroma_contrast_def)

section \<open>Malformed colours\<close>

lemma invalid_try:
  assumes "\<not> valid L color1 \<or> \<not> valid L color2"
  shows "deltaE2000_try L color1 color2 = None"
    and "deltaE94_try L color1 color2 = None"
    and "simpleDiff L color1 color2 = None"
  using assms
  by (auto simp: deltaE2000_try_def deltaE94_try_def simpleDiff_def valid_def split: option.splits)

text \<open>
  C2.  When either colour string is one the library cannot read, nothing is raised:
  \<^verbatim>\<open>calculateDeltaE2000\<close> and \<^verbatim>\<open>calculateDeltaE94\<close> return 100, and
  \<^verbatim>\<open>checkWCAGCompliance\<close> returns the empty result, with contrast ratio 1 and every
  AA and AAA flag false.
\<close>

theorem malformed_colors_soft_fail:
  assumes "\<not> valid L color1 \<or> \<not> valid L color2"
  shows "calculateDeltaE2000 L color1 color2 = 100
         \<and> calculateDeltaE94 L color1 color2 = 100
         \<and> checkWCAGCompliance L color1 color2 = createEmptyWCAGResult color1 color2
         \<and> contrastRatio (checkWCAGCompliance L color1 color2) = 1
         \<and> aaLevel (checkWCAGCompliance L color1 color2) = \<lparr>normal = False, large = False\<rparr>
         \<and> aaaLevel (checkWCAGCompliance L color1 color2) = \<lparr>normal = False, large = False\<rparr>"
proof -
  have w: "checkWCAGCompliance L color1 color2 = createEmptyWCAGResult color1 color2"
    using assms by (auto simp: checkWCAGCompliance_def valid_def split: option.splits)
  show ?thesis
    using invalid_try [OF assms]
    by (simp add: calculateDeltaE2000_def calculateDeltaE94_def w createEmptyWCAGResult_def)
qed

theorem malformed_colors_soft_fail_witness:
  "\<not> valid plain_lib ''#12345''
   \<and> calculateDeltaE2000 plain_lib ''#12345'' ''#777777'' = 100
   \<and> calculateDeltaE94 plain_lib ''#12345'' ''#777777'' = 100
   \<and> contrastRatio (checkWCAGCompliance plain_lib ''#12345'' ''#777777'') = 1"
  using malformed_colors_soft_fail [of plain_lib "''#12345''" "''#777777''"]
  by (simp add: plain_invalid createEmptyWCAGResult_def)

section \<open>Colours in gamut\<close>

lemma clip_rgb_idem: "clip_rgb (clip_rgb c) = clip_rgb c"
  by (cases c) (simp add: clip_rgb_def limit_def)

lemma clipped_range:
  assumes "clip_rgb (x, y, z) = (x, y, z)"
  shows "0 \<le> x \<and> x \<le> 255 \<and> 0 \<le> y \<and> y \<le> 255 \<and> 0 \<le> z \<and> z \<le> 255"
  using assms by (auto simp: clip_rgb_def limit_def min_def max_def split: if_splits)

lemma rgb2hex_rounded:
  "rgb2hex (of_int (js_round x), of_int (js_round y), of_int (js_round z)) = rgb2hex (x, y, z)"
  by (simp add: rgb2hex_def)

lemma chroma_rgb2hex:
  assumes "clip_rgb c = c" and "rgb_of c = (r, g, b)"
  shows "chroma L (rgb2hex c) = Some (of_int r, of_int g, of_int b)"
    and "rgb2hex (of_int r, of_int g, of_int b) = rgb2hex c"
    and "0 \<le> r \<and> r \<le> 255 \<and> 0 \<le> g \<and> g \<le> 255 \<and> 0 \<le> b \<and> b \<le> 255"
proof -
  obtain x y z where c: "c = (x, y, z)" by (cases c)
  from assms(2) have rgb: "r = js_round x" "g = js_round y" "b = js_round z"
    by (simp_all add: c rgb_of_def)
  from clipped_range assms(1) c
  have rng: "0 \<le> x \<and> x \<le> 255 \<and> 0 \<le> y \<and> y \<le> 255 \<and> 0 \<le> z \<and> z \<le> 255" by blast
  then have ir: "0 \<le> r \<and> r < 256 \<and> 0 \<le> g \<and> g < 256 \<and> 0 \<le> b \<and> b < 256"
    using js_round_range unfolding rgb by blast
  then show "0 \<le> r \<and> r \<le> 255 \<and> 0 \<le> g \<and> g \<le> 255 \<and> 0 \<le> b \<and> b \<le> 255" by auto
  show eq: "rgb2hex (of_int r, of_int g, of_int b) = rgb2hex c"
    unfolding rgb c by (rule rgb2hex_rounded)
  have "chroma L (rgb2hex (of_int r, of_int g, of_int b)) = Some (of_int r, of_int g, of_int b)"
    using ir by (intro chroma_rgb2hex_int) auto
  then show "chroma L (rgb2hex c) = Some (of_int r, of_int g, of_int b)"
    by (simp add: eq)
qed

lemma createColorInfo_ok:
  assumes "0 \<le> r \<and> r \<le> 255 \<and> 0 \<le> g \<and> g \<le> 255 \<and> 0 \<le> b \<and> b \<le> 255"
  shows "\<exists>ci. createColorInfo L gen r g b given = Inr ci
              \<and> hex ci = rgb2hex (of_int r, of_int g, of_int b)"
proof -
  have cl: "chroma_rgb (of_int r) (of_int g) (of_int b) = (of_int r, of_int g, of_int b)"
    using assms by (simp add: chroma_rgb_def clip_rgb_def limit_id)
  have p: "chroma L (rgb2hex (of_int r, of_int g, of_int b)) = Some (of_int r, of_int g, of_int b)"
    using assms by (intro chroma_rgb2hex_int) auto
  have "\<exists>n. getColorName L (rgb2hex (of_int r, of_int g, of_int b)) = Inr n"
    by (simp add: getColorName_def p Let_def split: option.splits prod.splits)
  then show ?thesis
    by (auto simp: createColorInfo_def rgbToHex_def cl Let_def)
qed

lemma lrgb_clipped: "clip_rgb (lrgb c1 c2 f) = lrgb c1 c2 f"
  by (cases c1; cases c2) (simp add: lrgb_def clip_rgb_idem)

lemma chroma_mix_clipped:
  assumes "chroma_mix L a b f = Some m"
  shows "clip_rgb m = m"
proof (cases "chroma L a")
  case None
  with assms show ?thesis by (simp add: chroma_mix_def)
next
  case (Some c1)
  show ?thesis
  proof (cases "chroma L b")
    case None
    with Some assms show ?thesis by (simp add: chroma_mix_def)
  next
    case (Some c2)
    with \<open>chroma L a = Some c1\<close> assms have "m = lrgb c1 c2 f"
      by (simp add: chroma_mix_def)
    with lrgb_clipped [of c1 c2 f] show ?thesis by simp
  qed
qed

lemma mix_hex_Some:
  assumes "mix_hex L a b f = Some h"
  shows "\<exists>c. clip_rgb c = c \<and> h = rgb2hex c"
proof -
  from assms obtain m where m: "chroma_mix L a b f = Some m" "h = rgb2hex m"
    by (auto simp: mix_hex_def)
  from chroma_mix_clipped [OF m(1)] m(2) show ?thesis by blast
qed

lemma mixLoop_Some:
  assumes "mixLoop L colors i n cur = Some h" and "i < n"
  shows "\<exists>c. clip_rgb c = c \<and> h = rgb2hex c"
  using assms
proof (induction L colors i n cur rule: mixLoop.induct)
  case (1 L colors i n currentMix)
  from 1(2,3) obtain hx m where hx: "hex_at colors i = Some hx"
    and m: "mix_hex L currentMix hx (1 / (real i + 1)) = Some m"
    and rest: "mixLoop L colors (i + 1) n m = Some h"
    by (subst (asm) mixLoop.simps) (auto split: option.splits)
  show ?case
  proof (cases "i + 1 < n")
    case True
    from 1(1) [OF 1(3) hx m rest True] show ?thesis .
  next
    case False
    with rest have "h = m" by (subst (asm) mixLoop.simps) simp
    with mix_hex_Some [OF m] show ?thesis by simp
  qed
qed

section \<open>Evaluating mixes\<close>

lemma js_round_sqrt:
  assumes "1 \<le> n" "(of_int n - 1 / 2)\<^sup>2 \<le> v" "v < (of_int n + 1 / 2)\<^sup>2"
  shows "js_round (sqrt v) = n"
proof -
  have p: "0 \<le> real_of_int n - 1 / 2" using assms(1) by simp
  have lo: "of_int n - 1 / 2 \<le> sqrt v"
    using assms(2) p by (simp add: real_le_rsqrt)
  have hi: "sqrt v < of_int n + 1 / 2"
    using assms(3) p by (intro real_less_lsqrt) auto
  show ?thesis unfolding js_round_def using lo hi by (simp add: floor_eq_iff)
qed

lemma limit_sqrt: "0 \<le> v \<Longrightarrow> v \<le> 65025 \<Longrightarrow> limit (sqrt v) 0 255 = sqrt v"
proof -
  assume a: "0 \<le> v" "v \<le> 65025"
  have "sqrt v \<le> 255" using a by (intro real_le_lsqrt) auto
  then show ?thesis using a by (simp add: limit_def)
qed

lemma mix_channel:
  assumes "1 \<le> n" "(of_int n - 1 / 2)\<^sup>2 \<le> v" "v < (of_int n + 1 / 2)\<^sup>2" "v \<le> 65025"
  shows "js_round (limit (sqrt v) 0 255) = n"
proof -
  have "0 \<le> (real_of_int n - 1 / 2)\<^sup>2" by simp
  with assms(2) have "0 \<le> v" by linarith
  with assms show ?thesis by (simp add: limit_sqrt js_round_sqrt)
qed

lemma mix_channel_zero: "js_round (limit 0 0 255) = 0"
  by (simp add: limit_def js_round_def)

lemma step1: "rgb2hex (lrgb (255, 0, 0) (0, 255, 0) (1 / 2)) = ''#b4b400''"
proof -
  have a: "js_round (limit (sqrt (65025 / 2)) 0 255) = 180"
    by (rule mix_channel) (simp_all add: power2_eq_square)
  show ?thesis
    by (simp add: lrgb_def clip_rgb_def rgb2hex_def a mix_channel_zero hex_digit_def)
qed

lemma chroma_hex_eval:
  "chroma L ''#ff0000'' = Some (255, 0, 0)"
  "chroma L ''#00ff00'' = Some (0, 255, 0)"
  "chroma L ''#0000ff'' = Some (0, 0, 255)"
  "chroma L ''#b4b400'' = Some (180, 180, 0)"
  "chroma L ''#000000'' = Some (0, 0, 0)"
  "chroma L ''#ffffff'' = Some (255, 255, 255)"
  by (simp_all add: chroma_def RE_HEX_def strip_hash_def is_hex_digit_def hex2rgb_def
      parseInt16_def digit_value_def clip_rgb_def limit_def)

lemma step2: "rgb2hex (lrgb (180, 180, 0) (0, 0, 255) (1 / 3)) = ''#939393''"
proof -
  have a: "js_round (limit (sqrt 21600) 0 255) = 147"
    by (rule mix_channel) (simp_all add: power2_eq_square)
  have b: "js_round (limit (sqrt 21675) 0 255) = 147"
    by (rule mix_channel) (simp_all add: power2_eq_square)
  show ?thesis
    by (simp add: lrgb_def clip_rgb_def rgb2hex_def a b hex_digit_def)
qed

lemma primaries_blend:
  "spec_sequentialBlend L [redColor, greenColor, blueColor] = Some ''#939393''"
  by (simp add: spec_sequentialBlend_def redColor_def greenColor_def blueColor_def mix_hex_def
      chroma_mix_def chroma_hex_eval step1 step2)

section \<open>N-way mixing is the sequential reduction\<close>

lemma mixLoop_spec:
  "i \<le> length colors \<Longrightarrow>
   mixLoop L colors i (length colors) cur = spec_blendFrom L cur (i + 1) (drop i colors)"
proof (induction L colors i "length colors" cur rule: mixLoop.induct)
  case (1 L colors i currentMix)
  show ?case
  proof (cases "i < length colors")
    case False
    with 1(2) show ?thesis by (subst mixLoop.simps) simp
  next
    case True
    then have d: "drop i colors = colors ! i # drop (i + 1) colors"
      by (simp add: Cons_nth_drop_Suc)
    have hx: "hex_at colors i = Some (hex (colors ! i))"
      using True by (simp add: hex_at_def)
    show ?thesis
    proof (cases "mix_hex L currentMix (hex (colors ! i)) (1 / (real i + 1))")
      case None
      with True hx d show ?thesis
        by (subst mixLoop.simps) (simp add: add.commute)
    next
      case (Some m)
      from True have "i + 1 \<le> length colors" by simp
      from 1(1) [OF True hx Some this]
      have "mixLoop L colors (i + 1) (length colors) m
            = spec_blendFrom L m (i + 1 + 1) (drop (i + 1) colors)" .
      with True hx d Some show ?thesis
        by (subst mixLoop.simps) (simp add: add.commute)
    qed
  qed
qed

text \<open>
  C3.  For two or more colours, \<^verbatim>\<open>mixMultipleColors\<close> computes its colour by the
  sequential pairwise reduction of the specification (colour 1 with colour 2 at weight
  1/2, the result with colour 3 at weight 1/3, the \<open>(i+1)\<close>-th colour at weight
  \<open>1/(i+1)\<close>): it fails exactly when that reduction meets a string the library cannot
  read, and otherwise returns a mixed colour whose hex is the result of the reduction,
  whose \<open>parentColors\<close> are the ids of all the input colours, and whose \<open>ratio\<close> has one
  entry \<open>1/n\<close> per input colour.
\<close>

theorem mixMultipleColors_sequential:
  assumes "2 \<le> length colors"
  shows "case spec_sequentialBlend L colors of
           None \<Rightarrow> mixMultipleColors L gen colors = Inl UnknownFormat
         | Some h \<Rightarrow>
             (\<exists>m. mixMultipleColors L gen colors = Inr m
                  \<and> hex m = h
                  \<and> parentColors m = map colorId colors
                  \<and> ratio m = replicate (length colors) (1 / real (length colors)))"
proof (cases "length colors = 2")
  case True
  then obtain c0 c1 where cs: "colors = [c0, c1]"
    by (cases colors; cases "tl colors") auto
  have sp: "spec_sequentialBlend L [c0, c1] = mix_hex L (hex c0) (hex c1) (1 / 2)"
    by (simp add: spec_sequentialBlend_def split: option.splits)
  have mm: "mixMultipleColors L gen [c0, c1] = mixColors L gen c0 c1 (1 / 2)"
    by (simp add: mixMultipleColors_def)
  show ?thesis
  proof (cases "chroma_mix L (hex c0) (hex c1) (1 / 2)")
    case None
    then show ?thesis unfolding cs sp mm by (simp add: mix_hex_def mixColors_def)
  next
    case (Some mixed)
    obtain r g b where rgb: "rgb_of mixed = (r, g, b)" by (cases "rgb_of mixed")
    have cl: "clip_rgb mixed = mixed" by (rule chroma_mix_clipped [OF Some])
    note f = chroma_rgb2hex [OF cl rgb]
    from createColorInfo_ok [OF f(3), of L gen None] f(2)
    obtain ci where ci: "createColorInfo L gen r g b None = Inr ci" "hex ci = rgb2hex mixed"
      by auto
    show ?thesis unfolding cs sp mm
      by (simp add: mix_hex_def mixColors_def Some rgb ci)
  qed
next
  case False
  with assms have n3: "2 < length colors" by simp
  then obtain c0 cs where cs: "colors = c0 # cs" by (cases colors) auto
  have sp: "spec_sequentialBlend L colors = mixLoop L colors (Suc 0) (length colors) (hex (colors ! 0))"
    using mixLoop_spec [of 1 colors L "hex (colors ! 0)"] n3
    by (simp add: cs spec_sequentialBlend_def numeral_2_eq_2)
  show ?thesis
  proof (cases "mixLoop L colors (Suc 0) (length colors) (hex (colors ! 0))")
    case None
    with n3 show ?thesis by (simp add: sp mixMultipleColors_def)
  next
    case (Some currentMix)
    from n3 have "Suc 0 < length colors" by simp
    from mixLoop_Some [OF Some this]
    obtain c where c: "clip_rgb c = c" "currentMix = rgb2hex c" by blast
    obtain r g b where rgb: "rgb_of c = (r, g, b)" by (cases "rgb_of c")
    note f = chroma_rgb2hex [OF c(1) rgb]
    from createColorInfo_ok [OF f(3), of L gen None] f(2)
    obtain ci where ci: "createColorInfo L gen r g b None = Inr ci" "hex ci = rgb2hex c"
      by auto
    have p: "chroma L currentMix = Some (of_int r, of_int g, of_int b)"
      using f(1) c(2) by simp
    show ?thesis
      using n3
      by (simp add: sp Some mixMultipleColors_def f(1) rgb_of_def ci c(2) map_replicate_const)
  qed
qed

theorem mixMultipleColors_sequential_witness:
  "2 \<le> length [redColor, greenColor, blueColor]
   \<and> spec_sequentialBlend plain_lib [redColor, greenColor, blueColor] = Some ''#939393''
   \<and> (\<exists>m. mixMultipleColors plain_lib ''color_new'' [redColor, greenColor, blueColor] = Inr m
           \<and> hex m = ''#939393''
           \<and> parentColors m = [Some ''color_red'', Some ''color_green'', Some ''color_blue'']
           \<and> ratio m = [1 / 3, 1 / 3, 1 / 3])"
proof -
  have ids: "colorId redColor = Some ''color_red''" "colorId greenColor = Some ''color_green''"
    "colorId blueColor = Some ''color_blue''"
    by (simp_all add: redColor_def greenColor_def blueColor_def)
  show ?thesis
    using mixMultipleColors_sequential [of "[redColor, greenColor, blueColor]" plain_lib
        "''color_new''"]
    by (simp add: primaries_blend ids numeral_3_eq_3)
qed

section \<open>The animation on fewer than two colours\<close>




section \<open>The animation on two or more colours\<close>

lemma valid_rgb2hex: "clip_rgb c = c \<Longrightarrow> valid L (rgb2hex c)"
proof -
  assume c: "clip_rgb c = c"
  obtain r g b where "rgb_of c = (r, g, b)" by (cases "rgb_of c")
  from chroma_rgb2hex(1) [OF c this] show ?thesis by (simp add: valid_def)
qed

lemma mix_hex_valid:
  assumes "valid L a" "valid L b"
  shows "\<exists>h. mix_hex L a b f = Some h \<and> valid L h"
proof -
  from assms obtain c1 c2 where "chroma L a = Some c1" "chroma L b = Some c2"
    by (auto simp: valid_def)
  then have m: "mix_hex L a b f = Some (rgb2hex (lrgb c1 c2 f))"
    by (simp add: mix_hex_def chroma_mix_def)
  with valid_rgb2hex [OF lrgb_clipped] show ?thesis by simp
qed

lemma mixLoop_valid:
  assumes "n \<le> length colors" "\<forall>c\<in>set colors. valid L (hex c)" "valid L cur"
  shows "\<exists>h. mixLoop L colors i n cur = Some h \<and> valid L h"
  using assms
proof (induction L colors i n cur rule: mixLoop.induct)
  case (1 L colors i n currentMix)
  show ?case
  proof (cases "i < n")
    case False
    with 1(4) show ?thesis by (subst mixLoop.simps) simp
  next
    case True
    with 1(2) have il: "i < length colors" by simp
    then have hx: "hex_at colors i = Some (hex (colors ! i))" by (simp add: hex_at_def)
    from il 1(3) have "valid L (hex (colors ! i))" by simp
    from mix_hex_valid [OF 1(4) this]
    obtain m where m: "mix_hex L currentMix (hex (colors ! i)) (1 / (real i + 1)) = Some m"
      "valid L m" by blast
    from 1(1) [OF True hx m(1) 1(2) 1(3) m(2)]
    obtain h where "mixLoop L colors (i + 1) n m = Some h" "valid L h" by blast
    with True hx m show ?thesis by (subst mixLoop.simps) simp
  qed
qed

lemma first_two_valid:
  assumes "2 \<le> length colors" "\<forall>c\<in>set colors. valid L (hex c)"
  shows "valid L (hex (colors ! 0))" "valid L (hex (colors ! 1))"
proof -
  from assms(1) have l: "0 < length colors" "1 < length colors" by linarith+
  have "colors ! 0 \<in> set colors" "colors ! 1 \<in> set colors"
    using nth_mem [OF l(1)] nth_mem [OF l(2)] by blast+
  with assms(2) show "valid L (hex (colors ! 0))" "valid L (hex (colors ! 1))" by blast+
qed

lemma getMixedColorAtProgress_ok:
  assumes "2 \<le> length colors" "\<forall>c\<in>set colors. valid L (hex c)"
  shows "\<exists>h. getMixedColorAtProgress L colors p = Some h"
proof -
  let ?n = "length colors"
  note v0 = first_two_valid(1) [OF assms] and v1 = first_two_valid(2) [OF assms]
  from assms have h0: "hex_at colors 0 = Some (hex (colors ! 0))"
    and h1: "hex_at colors 1 = Some (hex (colors ! 1))" by (auto simp: hex_at_def)
  consider "p \<le> 0" | "1 \<le> p" | "0 < p" "p < 1" by linarith
  then show ?thesis
  proof cases
    case 1
    then show ?thesis by (simp add: getMixedColorAtProgress_def h0)
  next
    case 2
    from mixLoop_valid [OF le_refl assms(2) v0, of 1]
    obtain h where "mixLoop L colors 1 ?n (hex (colors ! 0)) = Some h" by blast
    with 2 show ?thesis by (auto simp: getMixedColorAtProgress_def h0)
  next
    case 3
    define stage where "stage = p * (real ?n - 1)"
    define k where "k = nat \<lfloor>stage\<rfloor>"
    have g: "getMixedColorAtProgress L colors p =
      (if k = 0 then
         (case hex_at colors 1 of None \<Rightarrow> None
          | Some second \<Rightarrow> mix_hex L (hex (colors ! 0)) second (stage - real k))
       else
         (case mixLoop L colors 1 (k + 1) (hex (colors ! 0)) of None \<Rightarrow> None
          | Some currentMix \<Rightarrow>
              if k + 1 < length colors then
                mix_hex L currentMix (hex (colors ! (k + 1))) ((stage - real k) / (real k + 2))
              else Some currentMix))"
      using 3 unfolding getMixedColorAtProgress_def h0 k_def stage_def Let_def by simp
    from assms(1) have n1: "0 < real ?n - 1" by simp
    with 3 have "stage < real ?n - 1" by (simp add: stage_def)
    then have "\<lfloor>stage\<rfloor> < int ?n - 1" by (simp add: floor_less_iff)
    then have k: "k + 1 < ?n" using assms(1) unfolding k_def by linarith
    show ?thesis
    proof (cases "k = 0")
      case True
      from mix_hex_valid [OF v0 v1]
      obtain h where "mix_hex L (hex (colors ! 0)) (hex (colors ! 1)) (stage - real k) = Some h"
        by blast
      then show ?thesis unfolding g h1 using True by simp
    next
      case False
      from k have "k + 1 \<le> ?n" by simp
      from mixLoop_valid [OF this assms(2) v0, of 1]
      obtain m where m: "mixLoop L colors 1 (k + 1) (hex (colors ! 0)) = Some m" "valid L m"
        by blast
      from k have "colors ! (k + 1) \<in> set colors" by (rule nth_mem)
      with assms(2) have "valid L (hex (colors ! (k + 1)))" by blast
      from mix_hex_valid [OF m(2) this]
      obtain h where "mix_hex L m (hex (colors ! (k + 1)))
                        ((stage - real k) / (real k + 2)) = Some h" by blast
      then show ?thesis unfolding g m(1) using False k by simp
    qed
  qed
qed

lemma adjustedProgress_range:
  "0 \<le> adjustedProgress rnd steps i \<and> adjustedProgress rnd steps i \<le> 1"
  by (simp add: adjustedProgress_def)

lemma adjustedProgress_last:
  assumes "0 < steps" "1 / 2 \<le> rnd steps"
  shows "adjustedProgress rnd steps steps = 1"
  using assms by (simp add: adjustedProgress_def jitter_def)

lemma frameAt_ok:
  assumes "2 \<le> length colors" "\<forall>c\<in>set colors. valid L (hex c)" "0 < steps"
  shows "\<exists>h. frameAt L rnd colors steps i
               = Some \<lparr>frame_hex = h, progress = Num (real i / real steps)\<rparr>
             \<and> Some h = (if length colors = 2
                         then mix_hex L (hex (colors ! 0)) (hex (colors ! 1))
                                (adjustedProgress rnd steps i)
                         else getMixedColorAtProgress L colors (adjustedProgress rnd steps i))"
proof (cases "length colors = 2")
  case True
  from mix_hex_valid [OF first_two_valid [OF assms(1,2)]]
  obtain h where "mix_hex L (hex (colors ! 0)) (hex (colors ! 1)) (adjustedProgress rnd steps i)
                  = Some h" by blast
  with True assms(3) show ?thesis by (simp add: frameAt_def)
next
  case False
  from getMixedColorAtProgress_ok [OF assms(1,2)]
  obtain h where "getMixedColorAtProgress L colors (adjustedProgress rnd steps i) = Some h"
    by blast
  with False assms(3) show ?thesis by (simp add: frameAt_def)
qed

lemma animationLoop_frames:
  assumes "\<forall>j. i \<le> j \<and> j \<le> steps \<longrightarrow> frameAt L rnd colors steps j = Some (F j)"
    and "i \<le> steps + 1"
  shows "animationLoop L rnd colors steps i frames = Inr (frames @ map F [i..<steps + 1])"
  using assms
proof (induction L rnd colors steps i frames rule: animationLoop.induct)
  case (1 L rnd colors steps i frames)
  show ?case
  proof (cases "i \<le> steps")
    case False
    with 1(3) have "i = steps + 1" by simp
    then show ?thesis by (subst animationLoop.simps) simp
  next
    case True
    with 1(2) have f: "frameAt L rnd colors steps i = Some (F i)" by simp
    have "animationLoop L rnd colors steps (i + 1) (frames @ [F i])
          = Inr ((frames @ [F i]) @ map F [i + 1..<steps + 1])"
      using 1(1) [OF True f] 1(2) True by simp
    moreover have "[i..<steps + 1] = i # [i + 1..<steps + 1]"
      using True by (simp add: upt_rec)
    ultimately show ?thesis using True f by (subst animationLoop.simps) simp
  qed
qed

lemma mix_channel_255: "js_round (limit 255 0 255) = 255"
  by (simp add: limit_def js_round_def)

lemma red_blue_0: "rgb2hex (lrgb (255, 0, 0) (0, 0, 255) 0) = ''#ff0000''"
  by (simp add: lrgb_def clip_rgb_def rgb2hex_def mix_channel_zero mix_channel_255 hex_digit_def)

lemma red_blue_1: "rgb2hex (lrgb (255, 0, 0) (0, 0, 255) 1) = ''#0000ff''"
  by (simp add: lrgb_def clip_rgb_def rgb2hex_def mix_channel_zero mix_channel_255 hex_digit_def)

lemma red_blue_half: "rgb2hex (lrgb (255, 0, 0) (0, 0, 255) (1 / 2)) = ''#b400b4''"
proof -
  have a: "js_round (limit (sqrt (65025 / 2)) 0 255) = 180"
    by (rule mix_channel) (simp_all add: power2_eq_square)
  show ?thesis
    by (simp add: lrgb_def clip_rgb_def rgb2hex_def a mix_channel_zero hex_digit_def)
qed

lemma red_blue_95: "rgb2hex (lrgb (255, 0, 0) (0, 0, 255) (19 / 20)) = ''#3900f9''"
proof -
  have a: "js_round (limit (sqrt (13005 / 4)) 0 255) = 57"
    by (rule mix_channel) (simp_all add: power2_eq_square)
  have b: "js_round (limit (sqrt (247095 / 4)) 0 255) = 249"
    by (rule mix_channel) (simp_all add: power2_eq_square)
  show ?thesis
    by (simp add: lrgb_def clip_rgb_def rgb2hex_def a b mix_channel_zero hex_digit_def)
qed

lemma red_blue_hex: "hex redColor = ''#ff0000''" "hex blueColor = ''#0000ff''"
  by (simp_all add: redColor_def blueColor_def)

lemma red_blue_frames_zero:
  "frameAt L rnd_zero [redColor, blueColor] (Suc 0) 0 = Some \<lparr>frame_hex = ''#ff0000'', progress = Num 0\<rparr>"
  "frameAt L rnd_zero [redColor, blueColor] (Suc 0) (Suc 0) = Some \<lparr>frame_hex = ''#3900f9'', progress = Num 1\<rparr>"
  by (simp_all add: frameAt_def red_blue_hex mix_hex_def chroma_mix_def chroma_hex_eval
      adjustedProgress_def jitter_def rnd_zero_def red_blue_0 red_blue_95)

text \<open>
  C6, as stated, fails in its last part: the jitter is added in every step, the last one
  included.  With the two colours red and blue, one step, and \<^verbatim>\<open>Math.random()\<close>
  returning 0, the last frame records progress 1 but is mixed at 0.95: its colour is
  \<^verbatim>\<open>#3900f9\<close>, neither the blend at progress 1 (\<^verbatim>\<open>#0000ff\<close>) nor the equal mix of the
  two colours (\<^verbatim>\<open>#b400b4\<close>).
\<close>

theorem final_frame_perturbed_counterexample:
  "generateColorMixingAnimation plain_lib rnd_zero [redColor, blueColor] 1
     = Inr [\<lparr>frame_hex = ''#ff0000'', progress = Num 0\<rparr>,
            \<lparr>frame_hex = ''#3900f9'', progress = Num 1\<rparr>]
   \<and> mix_hex plain_lib (hex redColor) (hex blueColor) 1 = Some ''#0000ff''
   \<and> spec_sequentialBlend plain_lib [redColor, blueColor] = Some ''#b400b4''"
  by (simp add: generateColorMixingAnimation_def animationLoop.simps red_blue_frames_zero
      red_blue_hex mix_hex_def chroma_mix_def chroma_hex_eval red_blue_1 red_blue_half
      spec_sequentialBlend_def)

text \<open>
  C6, amended.  For at least two colours whose hex strings the library reads and at
  least one step, \<^verbatim>\<open>generateColorMixingAnimation\<close> returns exactly \<open>steps + 1\<close> frames;
  frame 0 records progress 0 and the last frame records progress 1; the perturbed
  progress that a frame's colour is mixed at always lies in \<open>[0, 1]\<close>; every frame,
  the first and the last included, is mixed at its perturbed progress; and the last frame
  is mixed at progress 1 exactly when the jitter of the last step is not negative, that
  is, when the last value of \<^verbatim>\<open>Math.random()\<close> is at least 0.5.
\<close>

theorem animation_frames:
  assumes "2 \<le> length colors" "1 \<le> steps" "\<forall>c\<in>set colors. valid L (hex c)"
  shows "\<exists>fs. generateColorMixingAnimation L rnd colors steps = Inr fs
          \<and> length fs = steps + 1
          \<and> progress (fs ! 0) = Num 0
          \<and> progress (fs ! steps) = Num 1
          \<and> (\<forall>i\<le>steps.
                0 \<le> adjustedProgress rnd steps i \<and> adjustedProgress rnd steps i \<le> 1
                \<and> Some (frame_hex (fs ! i))
                    = (if length colors = 2
                       then mix_hex L (hex (colors ! 0)) (hex (colors ! 1))
                              (adjustedProgress rnd steps i)
                       else getMixedColorAtProgress L colors (adjustedProgress rnd steps i)))
          \<and> (1 / 2 \<le> rnd steps \<longrightarrow> adjustedProgress rnd steps steps = 1)"
proof -
  from assms(2) have st: "0 < steps" by simp
  define F where "F j = the (frameAt L rnd colors steps j)" for j
  have Fj: "frameAt L rnd colors steps j = Some (F j)
            \<and> progress (F j) = Num (real j / real steps)
            \<and> Some (frame_hex (F j))
                = (if length colors = 2
                   then mix_hex L (hex (colors ! 0)) (hex (colors ! 1))
                          (adjustedProgress rnd steps j)
                   else getMixedColorAtProgress L colors (adjustedProgress rnd steps j))" for j
  proof -
    from frameAt_ok [OF assms(1,3) st, of rnd j]
    obtain h where h: "frameAt L rnd colors steps j
                        = Some \<lparr>frame_hex = h, progress = Num (real j / real steps)\<rparr>"
      "Some h = (if length colors = 2
                 then mix_hex L (hex (colors ! 0)) (hex (colors ! 1))
                        (adjustedProgress rnd steps j)
                 else getMixedColorAtProgress L colors (adjustedProgress rnd steps j))"
      by blast
    from h(1) have "F j = \<lparr>frame_hex = h, progress = Num (real j / real steps)\<rparr>"
      by (simp add: F_def)
    with h show ?thesis by simp
  qed
  let ?fs = "map F [0..<steps + 1]"
  have run: "generateColorMixingAnimation L rnd colors steps = Inr ?fs"
    using animationLoop_frames [of 0 steps L rnd colors F "[]"] Fj assms(1)
    by (simp add: generateColorMixingAnimation_def)
  have nth: "?fs ! i = F i" if "i \<le> steps" for i
    using that nth_map_upt [of i "steps + 1" 0 F] by simp
  have p0: "progress (?fs ! 0) = Num 0" using nth [of 0] Fj [of 0] by simp
  have p1: "progress (?fs ! steps) = Num 1" using nth [of steps] Fj [of steps] st by simp
  have mid: "\<forall>i\<le>steps.
                0 \<le> adjustedProgress rnd steps i \<and> adjustedProgress rnd steps i \<le> 1
                \<and> Some (frame_hex (?fs ! i))
                    = (if length colors = 2
                       then mix_hex L (hex (colors ! 0)) (hex (colors ! 1))
                              (adjustedProgress rnd steps i)
                       else getMixedColorAtProgress L colors (adjustedProgress rnd steps i))"
    using nth Fj adjustedProgress_range by simp
  have fin: "1 / 2 \<le> rnd steps \<longrightarrow> adjustedProgress rnd steps steps = 1"
    using adjustedProgress_last [OF st] by blast
  have len: "length ?fs = steps + 1" by simp
  from run len p0 p1 mid fin show ?thesis by blast
qed

theorem animation_frames_witness:
  "2 \<le> length [redColor, blueColor] \<and> (1::nat) \<le> 2
   \<and> valid plain_lib (hex redColor) \<and> valid plain_lib (hex blueColor)
   \<and> 1 / 2 \<le> rnd_half 2
   \<and> (\<exists>fs. generateColorMixingAnimation plain_lib rnd_half [redColor, blueColor] 2 = Inr fs
          \<and> length fs = 3
          \<and> progress (fs ! 0) = Num 0
          \<and> progress (fs ! 2) = Num 1
          \<and> frame_hex (fs ! 2) = ''#0000ff'')"
proof -
  have v: "\<forall>c\<in>set [redColor, blueColor]. valid plain_lib (hex c)"
    by (simp add: valid_def red_blue_hex chroma_hex_eval)
  have l: "2 \<le> length [redColor, blueColor]" "(1::nat) \<le> 2" by simp_all
  from animation_frames [OF l v, of rnd_half]
  obtain fs where fs: "generateColorMixingAnimation plain_lib rnd_half [redColor, blueColor] 2 = Inr fs"
    "length fs = 2 + 1" "progress (fs ! 0) = Num 0" "progress (fs ! 2) = Num 1"
    "\<forall>i\<le>2. Some (frame_hex (fs ! i))
        = (if length [redColor, blueColor] = 2
           then mix_hex plain_lib (hex ([redColor, blueColor] ! 0)) (hex ([redColor, blueColor] ! 1))
                  (adjustedProgress rnd_half 2 i)
           else getMixedColorAtProgress plain_lib [redColor, blueColor] (adjustedProgress rnd_half 2 i))"
    "1 / 2 \<le> rnd_half 2 \<longrightarrow> adjustedProgress rnd_half 2 2 = 1"
    by blast
  have r: "1 / 2 \<le> rnd_half 2" by (simp add: rnd_half_def)
  with fs(6) have a: "adjustedProgress rnd_half 2 2 = 1" by blast
  from fs(5) have "Some (frame_hex (fs ! 2))
      = mix_hex plain_lib (hex redColor) (hex blueColor) (adjustedProgress rnd_half 2 2)"
    by simp
  then have "frame_hex (fs ! 2) = ''#0000ff''"
    unfolding a by (simp add: red_blue_hex mix_hex_def chroma_mix_def chroma_hex_eval red_blue_1)
  with fs(1-4) v r show ?thesis by simp
qed

section \<open>The two difference metrics\<close>

lemma js_round_mono: "x \<le> y \<Longrightarrow> js_round x \<le> js_round y"
  by (simp add: js_round_def floor_mono)

lemma round2_mono: "x \<le> y \<Longrightarrow> round2 x \<le> round2 y"
  by (simp add: round2_def js_round_mono divide_right_mono)

lemma round2_strict: "round2 x < round2 y \<Longrightarrow> x < y"
  using round2_mono [of y x] by (rule_tac ccontr) simp

lemma round2_100: "round2 100 = 100" "round2 95 = 95"
  by (simp_all add: round2_def js_round_def)

lemma clamp_Num: "clamp_0_100 d = Num x \<Longrightarrow> 0 \<le> x \<and> x \<le> 100"
  by (cases d) auto

text \<open>What the two functions return, case by case.\<close>

lemma deltaE_cases:
  "(chroma_deltaE L a b = None
      \<and> calculateDeltaE2000 L a b = 100 \<and> calculateDeltaE94 L a b = 100)
   \<or> (\<exists>d. chroma_deltaE L a b = Some d \<and> \<not> isFinite d
      \<and> calculateDeltaE2000 L a b = 100 \<and> calculateDeltaE94 L a b = 100)
   \<or> (\<exists>x. chroma_deltaE L a b = Some (Num x) \<and> 0 \<le> x \<and> x \<le> 100
      \<and> calculateDeltaE2000 L a b = round2 x
      \<and> calculateDeltaE94 L a b = round2 (x * (95 / 100)))"
proof (cases "chroma L a")
  case None
  then show ?thesis
    by (simp add: chroma_deltaE_def calculateDeltaE2000_def calculateDeltaE94_def
        deltaE2000_try_def deltaE94_try_def simpleDiff_def)
next
  case (Some c1)
  note a = this
  show ?thesis
  proof (cases "chroma L b")
    case None
    with a show ?thesis
      by (simp add: chroma_deltaE_def calculateDeltaE2000_def calculateDeltaE94_def
          deltaE2000_try_def deltaE94_try_def simpleDiff_def)
  next
    case (Some c2)
    have d: "chroma_deltaE L a b = Some (clamp_0_100 (ciede2000 L c1 c2))"
      using a Some by (simp add: chroma_deltaE_def)
    show ?thesis
    proof (cases "clamp_0_100 (ciede2000 L c1 c2)")
      case (Num x)
      with clamp_Num have "0 \<le> x \<and> x \<le> 100" by blast
      with Num a Some d show ?thesis
        by (simp add: calculateDeltaE2000_def calculateDeltaE94_def
            deltaE2000_try_def deltaE94_try_def valid_def)
    qed (use a Some d in \<open>simp_all add: calculateDeltaE2000_def calculateDeltaE94_def
            deltaE2000_try_def deltaE94_try_def valid_def\<close>)
  qed
qed

lemma deltaE_pair:
  "(calculateDeltaE2000 L a b = 100 \<and> calculateDeltaE94 L a b = 100)
   \<or> (\<exists>x. 0 \<le> x \<and> x \<le> 100 \<and> calculateDeltaE2000 L a b = round2 x
          \<and> calculateDeltaE94 L a b = round2 (x * (95 / 100)))"
  using deltaE_cases [of L a b] by blast

text \<open>
  C7, amended.  For every pair of colours, \<^verbatim>\<open>calculateDeltaE94\<close> is at most
  \<^verbatim>\<open>calculateDeltaE2000\<close>; when the library returns a finite difference \<open>x\<close>, the first
  is \<open>0.95 x\<close> and the second is \<open>x\<close>, each rounded to two decimals; and the two metrics
  never rank two pairs in opposite ways: a pair that \<^verbatim>\<open>calculateDeltaE2000\<close> puts
  strictly below another is put below or level with it by \<^verbatim>\<open>calculateDeltaE94\<close>.
\<close>

theorem deltaE94_below_deltaE2000:
  "calculateDeltaE94 L a b \<le> calculateDeltaE2000 L a b
   \<and> (chroma_deltaE L a b = Some (Num x)
        \<longrightarrow> calculateDeltaE2000 L a b = round2 x
            \<and> calculateDeltaE94 L a b = round2 (x * (95 / 100)))
   \<and> (calculateDeltaE2000 L a b < calculateDeltaE2000 L c d
        \<longrightarrow> calculateDeltaE94 L a b \<le> calculateDeltaE94 L c d)"
proof -
  have le100: "calculateDeltaE94 L p q \<le> 100" for p q
  proof -
    from deltaE_pair [of L p q] show ?thesis
    proof
      assume "calculateDeltaE2000 L p q = 100 \<and> calculateDeltaE94 L p q = 100"
      then show ?thesis by simp
    next
      assume "\<exists>x. 0 \<le> x \<and> x \<le> 100 \<and> calculateDeltaE2000 L p q = round2 x
                \<and> calculateDeltaE94 L p q = round2 (x * (95 / 100))"
      then obtain y where y: "0 \<le> y" "y \<le> 100" "calculateDeltaE94 L p q = round2 (y * (95 / 100))"
        by blast
      then have "y * (95 / 100) \<le> 95" by simp
      from round2_mono [OF this] y(3) show ?thesis by (simp add: round2_100)
    qed
  qed
  have le2000: "calculateDeltaE2000 L p q \<le> 100" for p q
  proof -
    from deltaE_pair [of L p q] show ?thesis
    proof
      assume "calculateDeltaE2000 L p q = 100 \<and> calculateDeltaE94 L p q = 100"
      then show ?thesis by simp
    next
      assume "\<exists>x. 0 \<le> x \<and> x \<le> 100 \<and> calculateDeltaE2000 L p q = round2 x
                \<and> calculateDeltaE94 L p q = round2 (x * (95 / 100))"
      then obtain y where y: "0 \<le> y" "y \<le> 100" "calculateDeltaE2000 L p q = round2 y"
        by blast
      from round2_mono [OF y(2)] y(3) show ?thesis by (simp add: round2_100)
    qed
  qed
  have A: "calculateDeltaE94 L a b \<le> calculateDeltaE2000 L a b"
  proof -
    from deltaE_pair [of L a b] show ?thesis
    proof
      assume "calculateDeltaE2000 L a b = 100 \<and> calculateDeltaE94 L a b = 100"
      then show ?thesis by simp
    next
      assume "\<exists>x. 0 \<le> x \<and> x \<le> 100 \<and> calculateDeltaE2000 L a b = round2 x
                \<and> calculateDeltaE94 L a b = round2 (x * (95 / 100))"
      then obtain y where y: "0 \<le> y" "calculateDeltaE2000 L a b = round2 y"
        "calculateDeltaE94 L a b = round2 (y * (95 / 100))" by blast
      from y(1) have "y * (95 / 100) \<le> y" by simp
      from round2_mono [OF this] y show ?thesis by simp
    qed
  qed
  have B: "chroma_deltaE L a b = Some (Num x)
        \<longrightarrow> calculateDeltaE2000 L a b = round2 x
            \<and> calculateDeltaE94 L a b = round2 (x * (95 / 100))"
    using deltaE_cases [of L a b] by auto
  have C: "calculateDeltaE94 L a b \<le> calculateDeltaE94 L c d"
    if lt: "calculateDeltaE2000 L a b < calculateDeltaE2000 L c d"
  proof -
    from deltaE_pair [of L c d] show ?thesis
    proof
      assume "calculateDeltaE2000 L c d = 100 \<and> calculateDeltaE94 L c d = 100"
      with le100 [of a b] show ?thesis by simp
    next
      assume "\<exists>x. 0 \<le> x \<and> x \<le> 100 \<and> calculateDeltaE2000 L c d = round2 x
                \<and> calculateDeltaE94 L c d = round2 (x * (95 / 100))"
      then obtain y where y: "calculateDeltaE2000 L c d = round2 y"
        "calculateDeltaE94 L c d = round2 (y * (95 / 100))" by blast
      from deltaE_pair [of L a b] show ?thesis
      proof
        assume "calculateDeltaE2000 L a b = 100 \<and> calculateDeltaE94 L a b = 100"
        with lt le2000 [of c d] show ?thesis by simp
      next
        assume "\<exists>x. 0 \<le> x \<and> x \<le> 100 \<and> calculateDeltaE2000 L a b = round2 x
                  \<and> calculateDeltaE94 L a b = round2 (x * (95 / 100))"
        then obtain z where z: "calculateDeltaE2000 L a b = round2 z"
          "calculateDeltaE94 L a b = round2 (z * (95 / 100))" by blast
        from lt y(1) z(1) have "z < y" using round2_strict by simp
        then have "z * (95 / 100) \<le> y * (95 / 100)" by simp
        from round2_mono [OF this] y(2) z(2) show ?thesis by simp
      qed
    qed
  qed
  from A B C show ?thesis by blast
qed

lemma tie_lib_simps:
  "other_formats tie_lib s = None"
  "ciede2000 tie_lib a (247, 1, 12) = Num (20925 / 10000)"
  "ciede2000 tie_lib a (247, 34, 24) = Num (20974 / 10000)"
  by (simp_all add: tie_lib_def)

lemma chroma_hex_eval2:
  "chroma L ''#f7010c'' = Some (247, 1, 12)"
  "chroma L ''#f72218'' = Some (247, 34, 24)"
  by (simp_all add: chroma_def RE_HEX_def strip_hash_def is_hex_digit_def hex2rgb_def
      parseInt16_def digit_value_def clip_rgb_def limit_def)

lemma tie_deltaE:
  "chroma_deltaE tie_lib ''#ff0000'' ''#f7010c'' = Some (Num (20925 / 10000))"
  "chroma_deltaE tie_lib ''#ff0000'' ''#f72218'' = Some (Num (20974 / 10000))"
  by (simp_all add: chroma_deltaE_def chroma_hex_eval chroma_hex_eval2 tie_lib_simps)

lemma tie_values:
  "calculateDeltaE2000 tie_lib ''#ff0000'' ''#f7010c'' = 209 / 100"
  "calculateDeltaE2000 tie_lib ''#ff0000'' ''#f72218'' = 210 / 100"
  "calculateDeltaE94 tie_lib ''#ff0000'' ''#f7010c'' = 199 / 100"
  "calculateDeltaE94 tie_lib ''#ff0000'' ''#f72218'' = 199 / 100"
  by (simp_all add: calculateDeltaE2000_def calculateDeltaE94_def deltaE2000_try_def
      deltaE94_try_def valid_def chroma_hex_eval chroma_hex_eval2 tie_deltaE round2_def
      js_round_def)

theorem deltaE94_below_deltaE2000_witness:
  "chroma_deltaE tie_lib ''#ff0000'' ''#f7010c'' = Some (Num (20925 / 10000))
   \<and> calculateDeltaE2000 tie_lib ''#ff0000'' ''#f7010c''
       < calculateDeltaE2000 tie_lib ''#ff0000'' ''#f72218''
   \<and> calculateDeltaE94 tie_lib ''#ff0000'' ''#f7010c''
       \<le> calculateDeltaE2000 tie_lib ''#ff0000'' ''#f7010c''
   \<and> calculateDeltaE2000 tie_lib ''#ff0000'' ''#f7010c'' = round2 (20925 / 10000)
   \<and> calculateDeltaE94 tie_lib ''#ff0000'' ''#f7010c'' = round2 (20925 / 10000 * (95 / 100))
   \<and> calculateDeltaE94 tie_lib ''#ff0000'' ''#f7010c''
       \<le> calculateDeltaE94 tie_lib ''#ff0000'' ''#f72218''"
proof -
  have lt: "calculateDeltaE2000 tie_lib ''#ff0000'' ''#f7010c''
       < calculateDeltaE2000 tie_lib ''#ff0000'' ''#f72218''"
    by (simp add: tie_values)
  from deltaE94_below_deltaE2000 [of tie_lib "''#ff0000''" "''#f7010c''" "20925 / 10000"
      "''#ff0000''" "''#f72218''"] tie_deltaE(1) lt
  show ?thesis by blast
qed

text \<open>
  C7, as stated, fails in its last part: the rounding to two decimals comes after the
  scaling, so a strict ranking by \<^verbatim>\<open>calculateDeltaE2000\<close> can become a tie.  Differences
  of 2.0925 and 2.0974 are reported as 2.09 and 2.10 by \<^verbatim>\<open>calculateDeltaE2000\<close> and as
  1.99 both by \<^verbatim>\<open>calculateDeltaE94\<close>.
\<close>

theorem deltaE_ranking_tie_counterexample:
  "calculateDeltaE2000 tie_lib ''#ff0000'' ''#f7010c''
     < calculateDeltaE2000 tie_lib ''#ff0000'' ''#f72218''
   \<and> \<not> calculateDeltaE94 tie_lib ''#ff0000'' ''#f7010c''
         < calculateDeltaE94 tie_lib ''#ff0000'' ''#f72218''"
  by (simp add: tie_values)

section \<open>Harmony\<close>

text \<open>
  Where saturation and lightness are both non-zero, the harmony colours are the hue
  rotations of the input at its own saturation and lightness.
\<close>

lemma harmony_rotations:
  assumes "chroma L baseColor = Some c" "rgb2hsl c = (h0, s, l)" "s \<noteq> 0" "l \<noteq> 0"
  shows "calculateAdvancedHarmony L baseColor =
     Inr \<lparr>complementary = [hsl_hex (js_rem (hue_or_zero h0 + 180) 360) s l],
          triadic = [hsl_hex (js_rem (hue_or_zero h0 + 120) 360) s l,
                     hsl_hex (js_rem (hue_or_zero h0 + 240) 360) s l],
          tetradic = [hsl_hex (js_rem (hue_or_zero h0 + 90) 360) s l,
                      hsl_hex (js_rem (hue_or_zero h0 + 180) 360) s l,
                      hsl_hex (js_rem (hue_or_zero h0 + 270) 360) s l],
          analogous = [hsl_hex (js_rem (hue_or_zero h0 - 30 + 360) 360) s l,
                       hsl_hex (js_rem (hue_or_zero h0 + 30) 360) s l],
          splitComplementary = [hsl_hex (js_rem (hue_or_zero h0 + 150) 360) s l,
                                hsl_hex (js_rem (hue_or_zero h0 + 210) 360) s l]\<rparr>"
  using assms by (simp add: calculateAdvancedHarmony_def or_half_def Let_def)

lemma black_hsl: "rgb2hsl (0, 0, 0) = (None, 0, 0)"
  by (simp add: rgb2hsl_def)

lemma rotations: "js_rem 180 360 = 180" "js_rem 120 360 = 120" "js_rem 240 360 = 240"
  by (simp_all add: js_rem_def)

lemma black_harmony_colours:
  "hsl_hex 180 (1 / 2) (1 / 2) = ''#40bfbf''"
  "hsl_hex 120 (1 / 2) (1 / 2) = ''#40bf40''"
  "hsl_hex 240 (1 / 2) (1 / 2) = ''#4040bf''"
  "hsl_hex 180 0 0 = ''#000000''"
  by (simp_all add: hsl_hex_def chroma_hsl_def hsl2rgb_def hsl_channel_def clip_rgb_def limit_def
      rgb2hex_def js_round_def hex_digit_def Let_def)

text \<open>
  C9 fails on the code for achromatic and for black input.  Black has saturation 0 and
  lightness 0; \<^verbatim>\<open>hsl[1] || 0.5\<close> and \<^verbatim>\<open>hsl[2] || 0.5\<close> turn both into 0.5, so the
  complementary colour of \<^verbatim>\<open>#000000\<close> is \<^verbatim>\<open>#40bfbf\<close> and its triadic colours are
  \<^verbatim>\<open>#40bf40\<close> and \<^verbatim>\<open>#4040bf\<close>, where the rotation at the input's own saturation and
  lightness is \<^verbatim>\<open>#000000\<close>.
\<close>

theorem harmony_of_black:
  "rgb2hsl (0, 0, 0) = (None, 0, 0)
   \<and> (\<exists>H. calculateAdvancedHarmony L ''#000000'' = Inr H
          \<and> complementary H = [''#40bfbf'']
          \<and> triadic H = [''#40bf40'', ''#4040bf''])
   \<and> hsl_hex (js_rem (0 + 180) 360) 0 0 = ''#000000''"
  by (simp add: calculateAdvancedHarmony_def chroma_hex_eval black_hsl hue_or_zero_def or_half_def
      rotations black_harmony_colours Let_def)

end
